theory Spec2Isabelle
  imports Main
begin

section \<open>Paths\<close>

text \<open>
  The script handles every path as a \<^verbatim>\<open>pathlib.Path\<close>. A POSIX path is modelled by its
  anchor and the list of its components. The anchor is empty for a relative path, one
  slash for an absolute one, and two slashes for a path written with exactly two leading
  slashes, which pathlib keeps apart. A component never holds a slash and is never empty
  or a single dot; two dots are kept as a component, as pathlib keeps them.
\<close>

datatype anchor = Relative | Root | Root2

datatype Path = Path (anchor: anchor) (parts: "string list")

fun anchor_str :: "anchor \<Rightarrow> string" where
  "anchor_str Relative = []"
| "anchor_str Root = ''/''"
| "anchor_str Root2 = ''//''"

text \<open>Python's \<^verbatim>\<open>sep.join(xs)\<close>.\<close>

fun join :: "string \<Rightarrow> string list \<Rightarrow> string" where
  "join sep [] = []"
| "join sep [x] = x"
| "join sep (x # y # ys) = x @ sep @ join sep (y # ys)"

text \<open>\<^verbatim>\<open>p.name\<close>: the last component, the empty string where there is none.\<close>

definition name :: "Path \<Rightarrow> string" where
  "name p = (if parts p = [] then [] else last (parts p))"

text \<open>\<^verbatim>\<open>p.joinpath(q)\<close>, also written \<^verbatim>\<open>p / q\<close>: an anchored \<open>q\<close> replaces \<open>p\<close>.\<close>

definition joinpath :: "Path \<Rightarrow> Path \<Rightarrow> Path" where
  "joinpath p q = (if anchor q \<noteq> Relative then q else Path (anchor p) (parts p @ parts q))"

text \<open>\<^verbatim>\<open>p.as_posix()\<close>; the empty relative path prints as a dot.\<close>

definition as_posix :: "Path \<Rightarrow> string" where
  "as_posix p =
     (if anchor p = Relative \<and> parts p = [] then ''.''
      else anchor_str (anchor p) @ join ''/'' (parts p))"

text \<open>
  The path made from the string \<^verbatim>\<open>x.name\<close> when it is joined to another path: one
  relative component, or no component when the name is empty.
\<close>

definition of_name :: "string \<Rightarrow> Path" where
  "of_name n = Path Relative (if n = [] then [] else [n])"

text \<open>
  The path made from an arbitrary string (\<^verbatim>\<open>env_name\<close> is one): split at the slashes,
  empty components and single dots dropped. Exactly two leading slashes make the
  two-slash anchor; one, or three and more, make the root.
\<close>

fun split_on :: "char \<Rightarrow> string \<Rightarrow> string list" where
  "split_on c [] = [[]]"
| "split_on c (x # xs) =
     (if x = c then [] # split_on c xs
      else (case split_on c xs of [] \<Rightarrow> [[x]] | y # ys \<Rightarrow> (x # y) # ys))"

fun anchor_of_str :: "string \<Rightarrow> anchor" where
  "anchor_of_str [] = Relative"
| "anchor_of_str [a] = (if a = CHR ''/'' then Root else Relative)"
| "anchor_of_str [a, b] =
     (if a = CHR ''/'' then (if b = CHR ''/'' then Root2 else Root) else Relative)"
| "anchor_of_str (a # b # c # rest) =
     (if a = CHR ''/''
      then (if b = CHR ''/'' \<and> c \<noteq> CHR ''/'' then Root2 else Root)
      else Relative)"

definition Path_of_str :: "string \<Rightarrow> Path" where
  "Path_of_str s =
     Path (anchor_of_str s)
          (filter (\<lambda>c. c \<noteq> [] \<and> c \<noteq> ''.'') (split_on CHR ''/'' s))"

section \<open>The local file system\<close>

text \<open>
  What \<^verbatim>\<open>iterdir\<close>, \<^verbatim>\<open>is_file\<close> and \<^verbatim>\<open>is_dir\<close> see: a regular file, a directory with
  its entries in the order \<^verbatim>\<open>iterdir\<close> yields them, or anything else (a path that is
  neither, such as a socket, a broken link or a missing entry). A local path argument of
  the script is modelled by the path of its parent together with the node found there.
\<close>

datatype fs_node = File string | Dir string "fs_node list" | Other string

fun node_name :: "fs_node \<Rightarrow> string" where
  "node_name (File n) = n"
| "node_name (Dir n cs) = n"
| "node_name (Other n) = n"

fun is_file :: "fs_node \<Rightarrow> bool" where
  "is_file (File n) = True"
| "is_file (Dir n cs) = False"
| "is_file (Other n) = False"

section \<open>The transport\<close>

text \<open>
  The secure-shell library is outside the script. Every call the script makes on it is
  recorded, in order, and the library is a parameter: it decides from the calls made so
  far whether a call raises, and what the two output streams of a remote command hold
  (the successive results of \<^verbatim>\<open>stdout.readline()\<close>, and \<^verbatim>\<open>stderr.readlines()\<close>).
  \<^verbatim>\<open>set_missing_host_key_policy\<close> is a local setting and is not recorded. The streams
  are finite lists: a remote command whose output never ends, on which the script would
  wait for ever, is not among the behaviours of a transport here.
\<close>

datatype call =
    Connect string string string
  | Close
  | ExecCommand string bool
  | OpenSftp
  | Mkdir string
  | Put string string

record 'e transport =
  raises :: "call list \<Rightarrow> call \<Rightarrow> 'e option"
  streams :: "call list \<Rightarrow> string \<Rightarrow> bool \<Rightarrow> string list \<times> string list"

text \<open>The state outside the script's objects: the calls made, and what was printed.\<close>

record world =
  trace :: "call list"
  printed :: "string list"

text \<open>
  The exceptions. \<open>RemotePythonException\<close> is the class the script declares; the others
  are Python's own, and \<open>TransportError\<close> wraps whatever the library raises.
\<close>

datatype 'e error =
    RemotePythonException string
  | AttributeError
  | AssertionError
  | OSError
  | TransportError 'e

type_synonym ('e, 'a) result = "('e error + 'a) \<times> world"

definition invoke :: "'e transport \<Rightarrow> call \<Rightarrow> world \<Rightarrow> ('e, unit) result" where
  "invoke tr c w =
     (case raises tr (trace w) c of
        Some e \<Rightarrow> (Inl (TransportError e), w\<lparr>trace := trace w @ [c]\<rparr>)
      | None \<Rightarrow> (Inr (), w\<lparr>trace := trace w @ [c]\<rparr>))"

text \<open>\<^verbatim>\<open>print(s, end=e)\<close>; the default end is the line feed.\<close>

definition print :: "string \<Rightarrow> string \<Rightarrow> world \<Rightarrow> world" where
  "print s e w = w\<lparr>printed := printed w @ [s @ e]\<rparr>"

section \<open>class SSHClient\<close>

datatype paramiko_client = ParamikoClient

datatype sftp_client = SFTPClient

text \<open>
  The attribute \<^verbatim>\<open>ssh_client\<close> is set by \<^verbatim>\<open>connect\<close> with \<^verbatim>\<open>setattr\<close> and does not
  exist before: \<open>None\<close> is the missing attribute.
\<close>

record SSHClient =
  server :: string
  username :: string
  password :: string
  ssh_client :: "paramiko_client option"

definition SSHClient_init :: "string \<Rightarrow> string \<Rightarrow> string \<Rightarrow> SSHClient" where
  "SSHClient_init srv usr pw =
     \<lparr>server = srv, username = usr, password = pw, ssh_client = None\<rparr>"

definition connect :: "'e transport \<Rightarrow> SSHClient \<Rightarrow> world \<Rightarrow> ('e, SSHClient) result" where
  "connect tr self w =
     (case invoke tr (Connect (server self) (username self) (password self)) w of
        (Inl e, w1) \<Rightarrow> (Inl e, w1)
      | (Inr u, w1) \<Rightarrow> (Inr (self\<lparr>ssh_client := Some ParamikoClient\<rparr>), w1))"

text \<open>The property \<^verbatim>\<open>_ssh_client\<close>: \<^verbatim>\<open>getattr(self, 'ssh_client')\<close>, with no default.\<close>

definition ssh_client_property :: "SSHClient \<Rightarrow> 'e error + paramiko_client" where
  "ssh_client_property self =
     (case ssh_client self of None \<Rightarrow> Inl AttributeError | Some h \<Rightarrow> Inr h)"

definition close :: "'e transport \<Rightarrow> SSHClient \<Rightarrow> world \<Rightarrow> ('e, unit) result" where
  "close tr self w =
     (case ssh_client_property self of
        Inl e \<Rightarrow> (Inl e, w)
      | Inr h \<Rightarrow> invoke tr Close w)"

text \<open>The loop \<^verbatim>\<open>for line in iter(stdout.readline, ""): print(line, end='')\<close>.\<close>

fun print_lines :: "string list \<Rightarrow> world \<Rightarrow> world" where
  "print_lines [] w = w"
| "print_lines (line # rest) w =
     (if line = [] then w else print_lines rest (print line [] w))"

definition execute ::
  "'e transport \<Rightarrow> SSHClient \<Rightarrow> string list \<Rightarrow> bool \<Rightarrow> bool \<Rightarrow> world \<Rightarrow> ('e, unit) result"
where
  "execute tr self command as_root print_continuously w =
     (let command1 = (if as_root then [''sudo -E''] @ command else command) in
      case ssh_client_property self of
        Inl e \<Rightarrow> (Inl e, w)
      | Inr h \<Rightarrow>
          (case invoke tr (ExecCommand (join '' '' command1) print_continuously) w of
             (Inl e, w1) \<Rightarrow> (Inl e, w1)
           | (Inr u, w1) \<Rightarrow>
               (case streams tr (trace w) (join '' '' command1) print_continuously of
                  (stdout, stderr) \<Rightarrow>
                    (Inr (), print (concat stderr) [CHR 0x0A] (print_lines stdout w1)))))"

text \<open>
  \<^verbatim>\<open>copy_folder\<close>, with the loop over \<^verbatim>\<open>local_folder.iterdir()\<close> as \<open>copy_entries\<close>.
  \<open>parent\<close> and \<open>node\<close> stand for \<^verbatim>\<open>local_folder\<close>; \<^verbatim>\<open>iterdir\<close> raises on a path that
  is not a directory, after the remote directory was made.
\<close>

fun copy_folder ::
  "'e transport \<Rightarrow> SSHClient \<Rightarrow> Path \<Rightarrow> fs_node \<Rightarrow> Path \<Rightarrow> sftp_client option \<Rightarrow> world
     \<Rightarrow> ('e, unit) result"
and copy_entries ::
  "'e transport \<Rightarrow> SSHClient \<Rightarrow> Path \<Rightarrow> string \<Rightarrow> fs_node list \<Rightarrow> Path \<Rightarrow> world
     \<Rightarrow> ('e, unit) result"
where
  "copy_folder tr self parent node remote_destination sftp w =
     (case (case sftp of
              Some c \<Rightarrow> (Inr c, w)
            | None \<Rightarrow>
                (case ssh_client_property self of
                   Inl e \<Rightarrow> (Inl e, w)
                 | Inr h \<Rightarrow>
                     (case invoke tr OpenSftp w of
                        (Inl e, w0) \<Rightarrow> (Inl e, w0)
                      | (Inr u, w0) \<Rightarrow> (Inr SFTPClient, w0)))) of
        (Inl e, w1) \<Rightarrow> (Inl e, w1)
      | (Inr c, w1) \<Rightarrow>
          (case invoke tr
                  (Mkdir (as_posix (joinpath remote_destination (of_name (node_name node)))))
                  w1 of
             (Inl e, w2) \<Rightarrow> (Inl e, w2)
           | (Inr u, w2) \<Rightarrow>
               (case node of
                  Dir n entries \<Rightarrow>
                    copy_entries tr self (joinpath parent (of_name n)) n entries
                      remote_destination w2
                | File n \<Rightarrow> (Inl OSError, w2)
                | Other n \<Rightarrow> (Inl OSError, w2))))"
| "copy_entries tr self local_folder n [] remote_destination w = (Inr (), w)"
| "copy_entries tr self local_folder n (File m # rest) remote_destination w =
     (case invoke tr
             (Put (as_posix (joinpath local_folder (of_name m)))
                  (as_posix (joinpath (joinpath remote_destination (of_name n)) (of_name m))))
             w of
        (Inl e, w1) \<Rightarrow> (Inl e, w1)
      | (Inr u, w1) \<Rightarrow> copy_entries tr self local_folder n rest remote_destination w1)"
| "copy_entries tr self local_folder n (Dir m sub # rest) remote_destination w =
     (case copy_folder tr self local_folder (Dir m sub)
             (joinpath remote_destination (of_name n)) (Some SFTPClient) w of
        (Inl e, w1) \<Rightarrow> (Inl e, w1)
      | (Inr u, w1) \<Rightarrow> copy_entries tr self local_folder n rest remote_destination w1)"
| "copy_entries tr self local_folder n (Other m # rest) remote_destination w =
     copy_entries tr self local_folder n rest remote_destination w"

definition copy_file ::
  "'e transport \<Rightarrow> SSHClient \<Rightarrow> Path \<Rightarrow> Path \<Rightarrow> world \<Rightarrow> ('e, unit) result"
where
  "copy_file tr self local_file remote_destination w =
     (case ssh_client_property self of
        Inl e \<Rightarrow> (Inl e, w)
      | Inr h \<Rightarrow>
          (case invoke tr OpenSftp w of
             (Inl e, w1) \<Rightarrow> (Inl e, w1)
           | (Inr u, w1) \<Rightarrow>
               invoke tr
                 (Put (as_posix local_file)
                      (as_posix (joinpath remote_destination (of_name (name local_file)))))
                 w1))"

section \<open>class RemotePython\<close>

record RemotePython =
  rp_server :: string
  rp_user :: string
  rp_password :: string

text \<open>
  The context manager \<^verbatim>\<open>open_ssh_client\<close> around the body of a \<^verbatim>\<open>with\<close> statement:
  \<^verbatim>\<open>try: yield ssh_client.connect() finally: ssh_client.close()\<close>. The \<^verbatim>\<open>finally\<close> clause
  runs on every way out of the \<^verbatim>\<open>try\<close>, also when \<^verbatim>\<open>connect\<close> raised; an exception
  raised by \<^verbatim>\<open>close\<close> there replaces the one that was under way.
\<close>

definition open_ssh_client ::
  "'e transport \<Rightarrow> RemotePython \<Rightarrow> (SSHClient \<Rightarrow> world \<Rightarrow> ('e, unit) result) \<Rightarrow> world
     \<Rightarrow> ('e, unit) result"
where
  "open_ssh_client tr self body w =
     (let ssh_client0 = SSHClient_init (rp_server self) (rp_user self) (rp_password self) in
      case connect tr ssh_client0 w of
        (Inl e, w1) \<Rightarrow>
          (case close tr ssh_client0 w1 of
             (Inl e2, w2) \<Rightarrow> (Inl e2, w2)
           | (Inr u, w2) \<Rightarrow> (Inl e, w2))
      | (Inr ssh_client1, w1) \<Rightarrow>
          (case body ssh_client1 w1 of
             (r, w2) \<Rightarrow>
               (case close tr ssh_client1 w2 of
                  (Inl e2, w3) \<Rightarrow> (Inl e2, w3)
                | (Inr u, w3) \<Rightarrow> (r, w3))))"

definition create_python_environment ::
  "'e transport \<Rightarrow> RemotePython \<Rightarrow> Path \<Rightarrow> string \<Rightarrow> world \<Rightarrow> ('e, unit) result"
where
  "create_python_environment tr self path env_name w =
     open_ssh_client tr self
       (\<lambda>ssh_client1 w1.
          execute tr ssh_client1
            [''python3'', ''-m'', ''venv'', as_posix (joinpath path (Path_of_str env_name))]
            False False w1)
       w"

text \<open>The body of the \<^verbatim>\<open>with\<close> statement of \<^verbatim>\<open>execute_python_project\<close>.\<close>

definition project_steps ::
  "'e transport \<Rightarrow> Path \<Rightarrow> fs_node \<Rightarrow> Path \<Rightarrow> Path \<Rightarrow> bool \<Rightarrow> SSHClient \<Rightarrow> world
     \<Rightarrow> ('e, unit) result"
where
  "project_steps tr parent project file remote_destination as_root ssh_client1 w =
     (let remote_project_folder = joinpath remote_destination (of_name (node_name project)) in
      case execute tr ssh_client1 [''rm -rf '' @ as_posix remote_project_folder] as_root False w of
        (Inl e, w1) \<Rightarrow> (Inl e, w1)
      | (Inr u, w1) \<Rightarrow>
          (case copy_folder tr ssh_client1 parent project remote_destination None w1 of
             (Inl e, w2) \<Rightarrow> (Inl e, w2)
           | (Inr u, w2) \<Rightarrow>
               execute tr ssh_client1
                 [''python3'', as_posix (joinpath remote_project_folder file)] as_root True w2))"

definition execute_python_project ::
  "'e transport \<Rightarrow> RemotePython \<Rightarrow> Path \<Rightarrow> fs_node \<Rightarrow> Path \<Rightarrow> Path \<Rightarrow> bool \<Rightarrow> world
     \<Rightarrow> ('e, unit) result"
where
  "execute_python_project tr self parent project file remote_destination as_root w =
     open_ssh_client tr self
       (project_steps tr parent project file remote_destination as_root) w"

text \<open>The body of the \<^verbatim>\<open>with\<close> statement of \<^verbatim>\<open>execute_python_file\<close>.\<close>

definition file_steps ::
  "'e transport \<Rightarrow> Path \<Rightarrow> Path \<Rightarrow> bool \<Rightarrow> SSHClient \<Rightarrow> world \<Rightarrow> ('e, unit) result"
where
  "file_steps tr local_file remote_destination as_root ssh_client1 w =
     (let file_to_execute =
            as_posix (joinpath remote_destination (of_name (name local_file))) in
      case execute tr ssh_client1 [''rm -f '' @ file_to_execute] False False w of
        (Inl e, w1) \<Rightarrow> (Inl e, w1)
      | (Inr u, w1) \<Rightarrow>
          (case copy_file tr ssh_client1 local_file remote_destination w1 of
             (Inl e, w2) \<Rightarrow> (Inl e, w2)
           | (Inr u, w2) \<Rightarrow>
               execute tr ssh_client1 [''python3'', file_to_execute] as_root True w2))"

text \<open>
  \<open>parent\<close> and \<open>node\<close> stand for \<^verbatim>\<open>local_file\<close>, which is \<open>parent\<close> joined with the
  node's name.
\<close>

definition execute_python_file ::
  "'e transport \<Rightarrow> RemotePython \<Rightarrow> Path \<Rightarrow> fs_node \<Rightarrow> Path \<Rightarrow> bool \<Rightarrow> world
     \<Rightarrow> ('e, unit) result"
where
  "execute_python_file tr self parent node remote_destination as_root w =
     (if \<not> is_file node then (Inl AssertionError, w)
      else
        open_ssh_client tr self
          (file_steps tr (joinpath parent (of_name (node_name node))) remote_destination as_root)
          (print (as_posix remote_destination) [CHR 0x0A] w))"

section \<open>The command line\<close>

text \<open>
  The parsed arguments: the three connection options and the chosen subcommand with its
  own options. The three module-level functions that unpack the arguments for the
  methods of \<open>RemotePython\<close> are the three branches of \<open>main\<close>.
\<close>

datatype action =
    Env Path string
  | Execute_project Path fs_node Path Path bool
  | Execute_file Path fs_node Path bool

record Namespace =
  arg_server :: string
  arg_user :: string
  arg_password :: string
  arg_action :: action

definition main :: "'e transport \<Rightarrow> Namespace \<Rightarrow> world \<Rightarrow> ('e, unit) result" where
  "main tr arguments w =
     (let remote_python =
            \<lparr>rp_server = arg_server arguments, rp_user = arg_user arguments,
             rp_password = arg_password arguments\<rparr> in
      case arg_action arguments of
        Env env_folder env_name \<Rightarrow>
          create_python_environment tr remote_python env_folder env_name w
      | Execute_project parent project execute_file remote_destination as_root \<Rightarrow>
          execute_python_project tr remote_python parent project execute_file
            remote_destination as_root w
      | Execute_file parent node remote_destination as_root \<Rightarrow>
          execute_python_file tr remote_python parent node remote_destination as_root w)"

text \<open>
  The last lines of the script: \<^verbatim>\<open>try: main(...) except RemotePythonException as error:
  print(error); exit(1)\<close>. Any other exception leaves the script unhandled.
\<close>

datatype 'e outcome = Completed | Exit_1 | Unhandled "'e error"

definition script :: "'e transport \<Rightarrow> Namespace \<Rightarrow> world \<Rightarrow> 'e outcome \<times> world" where
  "script tr arguments w =
     (case main tr arguments w of
        (Inr u, w1) \<Rightarrow> (Completed, w1)
      | (Inl (RemotePythonException msg), w1) \<Rightarrow> (Exit_1, print msg [CHR 0x0A] w1)
      | (Inl e, w1) \<Rightarrow> (Unhandled e, w1))"

section \<open>Transports to run the script against\<close>

text \<open>A transport that accepts every call; every remote command prints nothing.\<close>

definition accepting :: "string transport" where
  "accepting = \<lparr>raises = (\<lambda>h c. None), streams = (\<lambda>h cmd pty. ([], []))\<rparr>"

text \<open>A transport that refuses the calls of a given list and accepts the others.\<close>

definition refusing :: "call list \<Rightarrow> string transport" where
  "refusing cs =
     \<lparr>raises = (\<lambda>h c. if c \<in> set cs then Some ''refused'' else None),
      streams = (\<lambda>h cmd pty. ([], []))\<rparr>"

text \<open>
  A remote host on which the given paths exist: making a directory that exists, or that
  an earlier call has made, is refused, as the file-transfer protocol does.
\<close>

definition remote_host :: "string list \<Rightarrow> string transport" where
  "remote_host existing =
     \<lparr>raises = (\<lambda>h c. case c of
                  Mkdir p \<Rightarrow> if p \<in> set existing \<or> Mkdir p \<in> set h then Some ''exists'' else None
                | _ \<Rightarrow> None),
      streams = (\<lambda>h cmd pty. ([], []))\<rparr>"

text \<open>A transport that accepts every call; every remote command yields the given streams.\<close>

definition replying :: "string list \<Rightarrow> string list \<Rightarrow> string transport" where
  "replying out err = \<lparr>raises = (\<lambda>h c. None), streams = (\<lambda>h cmd pty. (out, err))\<rparr>"

text \<open>A session object as \<^verbatim>\<open>connect\<close> leaves it.\<close>

definition connected :: SSHClient where
  "connected =
     \<lparr>server = ''host'', username = ''pi'', password = ''secret'',
      ssh_client = Some ParamikoClient\<rparr>"

text \<open>Parsed command lines for the two subcommands that copy and run.\<close>

definition file_arguments :: Namespace where
  "file_arguments =
     \<lparr>arg_server = ''host'', arg_user = ''pi'', arg_password = ''secret'',
      arg_action =
        Execute_file (Path Root [''local'']) (File ''task.py'') (Path Root [''srv'']) True\<rparr>"

definition remote_python0 :: RemotePython where
  "remote_python0 = \<lparr>rp_server = ''host'', rp_user = ''pi'', rp_password = ''secret''\<rparr>"

definition world0 :: world where
  "world0 = \<lparr>trace = [], printed = []\<rparr>"

section \<open>Reading a list of calls\<close>

text \<open>
  The nodes of a local tree, each as its path from the root, the root's own name first:
  the directories (the root included) and the files, in the order of a walk that visits
  a directory before its entries.
\<close>

fun dir_nodes :: "fs_node \<Rightarrow> string list list" where
  "dir_nodes (Dir n entries) = [n] # map ((#) n) (concat (map dir_nodes entries))"
| "dir_nodes (File n) = []"
| "dir_nodes (Other n) = []"

fun file_nodes :: "fs_node \<Rightarrow> string list list" where
  "file_nodes (Dir n entries) = map ((#) n) (concat (map file_nodes entries))"
| "file_nodes (File n) = [[n]]"
| "file_nodes (Other n) = []"

text \<open>The path of a node, given by its names from the root, below a base path.\<close>

definition node_path :: "Path \<Rightarrow> string list \<Rightarrow> string" where
  "node_path base rel = as_posix (foldl (\<lambda>p n. joinpath p (of_name n)) base rel)"

text \<open>The arguments of the directory creations and of the file copies among some calls.\<close>

definition mkdir_calls :: "call list \<Rightarrow> string list" where
  "mkdir_calls t = concat (map (\<lambda>c. case c of Mkdir p \<Rightarrow> [p] | _ \<Rightarrow> []) t)"

definition put_calls :: "call list \<Rightarrow> (string \<times> string) list" where
  "put_calls t = concat (map (\<lambda>c. case c of Put l r \<Rightarrow> [(l, r)] | _ \<Rightarrow> []) t)"

text \<open>The calls of a transfer that runs to its end, in order.\<close>

fun tree_calls :: "Path \<Rightarrow> Path \<Rightarrow> fs_node \<Rightarrow> call list" where
  "tree_calls parent dest (Dir n entries) =
     Mkdir (as_posix (joinpath dest (of_name n)))
     # concat (map (tree_calls (joinpath parent (of_name n)) (joinpath dest (of_name n))) entries)"
| "tree_calls parent dest (File n) =
     [Put (as_posix (joinpath parent (of_name n))) (as_posix (joinpath dest (of_name n)))]"
| "tree_calls parent dest (Other n) = []"

text \<open>Calls on the file-transfer channel, and calls that open or close the connection.\<close>

fun transfer_call :: "call \<Rightarrow> bool" where
  "transfer_call OpenSftp = True"
| "transfer_call (Mkdir p) = True"
| "transfer_call (Put l r) = True"
| "transfer_call c = False"

fun session_call :: "call \<Rightarrow> bool" where
  "session_call (Connect s u p) = True"
| "session_call Close = True"
| "session_call c = False"

text \<open>A step from one world to a result that only adds calls of a given kind.\<close>

definition adds :: "(call \<Rightarrow> bool) \<Rightarrow> world \<Rightarrow> world \<Rightarrow> bool" where
  "adds P w w1 = (\<exists>new. trace w1 = trace w @ new \<and> list_all P new)"

text \<open>Every exception but the one the script declares.\<close>

fun foreign :: "'e error + 'a \<Rightarrow> bool" where
  "foreign (Inl (RemotePythonException msg)) = False"
| "foreign r = True"

section \<open>Basic facts\<close>

lemma invoke_split:
  "invoke tr c w =
     ((case raises tr (trace w) c of Some e \<Rightarrow> Inl (TransportError e) | None \<Rightarrow> Inr ()),
      w\<lparr>trace := trace w @ [c]\<rparr>)"
  by (simp add: invoke_def split: option.splits)

lemma print_lines_printed:
  "printed (print_lines ls w) = printed w @ takeWhile (\<lambda>l. l \<noteq> []) ls"
  by (induction ls arbitrary: w) (simp_all add: print_def)

lemma print_lines_trace:
  "trace (print_lines ls w) = trace w"
  by (induction ls arbitrary: w) (simp_all add: print_def)

lemma join_space:
  "join '' '' (t # ts) = t @ concat (map ((@) '' '') ts)"
  by (induction ts arbitrary: t) simp_all

lemma accepting_simps:
  "raises accepting h c = None"
  "streams accepting h cmd pty = ([], [])"
  by (simp_all add: accepting_def)

lemma refusing_simps:
  "raises (refusing cs) h c = (if c \<in> set cs then Some ''refused'' else None)"
  "streams (refusing cs) h cmd pty = ([], [])"
  by (simp_all add: refusing_def)

lemma remote_host_simps:
  "raises (remote_host existing) h c =
     (case c of
        Mkdir p \<Rightarrow> if p \<in> set existing \<or> Mkdir p \<in> set h then Some ''exists'' else None
      | _ \<Rightarrow> None)"
  "streams (remote_host existing) h cmd pty = ([], [])"
  by (simp_all add: remote_host_def)

lemma execute_trace:
  "ssh_client self = Some h \<Longrightarrow>
   trace (snd (execute tr self command as_root pc w)) =
     trace w @ [ExecCommand (join '' '' (if as_root then ''sudo -E'' # command else command)) pc]"
  by (auto simp: execute_def ssh_client_property_def Let_def invoke_def print_def print_lines_trace
      split: option.splits prod.splits)

section \<open>Facts about the transfer\<close>

declare copy_folder.simps [simp del]

lemma copy_folder_Some:
  "copy_folder tr self parent node dest (Some c) w =
     (case raises tr (trace w) (Mkdir (as_posix (joinpath dest (of_name (node_name node))))) of
        Some e \<Rightarrow>
          (Inl (TransportError e),
           w\<lparr>trace := trace w @ [Mkdir (as_posix (joinpath dest (of_name (node_name node))))]\<rparr>)
      | None \<Rightarrow>
          (case node of
             Dir n entries \<Rightarrow>
               copy_entries tr self (joinpath parent (of_name n)) n entries dest
                 (w\<lparr>trace := trace w @ [Mkdir (as_posix (joinpath dest (of_name n)))]\<rparr>)
           | File n \<Rightarrow>
               (Inl OSError, w\<lparr>trace := trace w @ [Mkdir (as_posix (joinpath dest (of_name n)))]\<rparr>)
           | Other n \<Rightarrow>
               (Inl OSError, w\<lparr>trace := trace w @ [Mkdir (as_posix (joinpath dest (of_name n)))]\<rparr>)))"
  by (simp add: copy_folder.simps invoke_split split: option.splits fs_node.splits)

lemma copy_folder_None:
  "ssh_client self = Some h \<Longrightarrow>
   copy_folder tr self parent node dest None w =
     (case raises tr (trace w) OpenSftp of
        Some e \<Rightarrow> (Inl (TransportError e), w\<lparr>trace := trace w @ [OpenSftp]\<rparr>)
      | None \<Rightarrow>
          copy_folder tr self parent node dest (Some SFTPClient)
            (w\<lparr>trace := trace w @ [OpenSftp]\<rparr>))"
  by (simp add: copy_folder.simps invoke_split ssh_client_property_def split: option.splits)

lemma copy_folder_unconnected:
  "ssh_client self = None \<Longrightarrow>
   copy_folder tr self parent node dest None w = (Inl AttributeError, w)"
  by (simp add: copy_folder.simps ssh_client_property_def)

subsection \<open>Steps that add calls of one kind\<close>

lemma adds_refl: "adds P w w"
  by (simp add: adds_def)

lemma adds_call: "P c \<Longrightarrow> adds P w (w\<lparr>trace := trace w @ [c]\<rparr>)"
  by (simp add: adds_def)

lemma adds_trans: "adds P w w1 \<Longrightarrow> adds P w1 w2 \<Longrightarrow> adds P w w2"
  by (auto simp: adds_def)

lemma adds_call_then:
  "adds P (w\<lparr>trace := trace w @ [c]\<rparr>) w2 \<Longrightarrow> P c \<Longrightarrow> adds P w w2"
  by (rule adds_trans [OF adds_call])

lemma adds_mono: "adds P w w1 \<Longrightarrow> (\<And>c. P c \<Longrightarrow> Q c) \<Longrightarrow> adds Q w w1"
  by (auto simp: adds_def list_all_iff)

subsection \<open>A transfer adds calls on the file-transfer channel only\<close>

lemma entries_sound:
  assumes IH: "\<And>node w parent dest. node \<in> set entries \<Longrightarrow>
      adds transfer_call w (snd (copy_folder tr self parent node dest (Some SFTPClient) w))
      \<and> foreign (fst (copy_folder tr self parent node dest (Some SFTPClient) w))"
  shows "adds transfer_call w (snd (copy_entries tr self lf n entries dest w))
     \<and> foreign (fst (copy_entries tr self lf n entries dest w))"
  using IH
proof (induction entries arbitrary: w)
  case Nil
  then show ?case by (simp add: adds_refl)
next
  case (Cons node rest)
  have rest: "adds transfer_call w1 (snd (copy_entries tr self lf n rest dest w1))
     \<and> foreign (fst (copy_entries tr self lf n rest dest w1))" for w1
    by (rule Cons.IH) (rule Cons.prems, simp)
  show ?case
  proof (cases node)
    case (File m)
    show ?thesis
    proof (cases "raises tr (trace w)
             (Put (as_posix (joinpath lf (of_name m)))
                  (as_posix (joinpath (joinpath dest (of_name n)) (of_name m))))")
      case None
      with File
        rest [of "w\<lparr>trace := trace w @
          [Put (as_posix (joinpath lf (of_name m)))
               (as_posix (joinpath (joinpath dest (of_name n)) (of_name m)))]\<rparr>"]
      show ?thesis
        by (auto simp: invoke_split intro: adds_call_then)
    next
      case (Some e)
      with File show ?thesis
        by (simp add: invoke_split adds_call)
    qed
  next
    case (Dir m sub)
    obtain r w1 where c:
      "copy_folder tr self lf node (joinpath dest (of_name n)) (Some SFTPClient) w = (r, w1)"
      by (cases "copy_folder tr self lf node (joinpath dest (of_name n)) (Some SFTPClient) w")
    from Cons.prems [of node w lf "joinpath dest (of_name n)"] c
    have s: "adds transfer_call w w1" "foreign r" by simp_all
    show ?thesis
    proof (cases r)
      case (Inl e)
      with Dir c s show ?thesis by simp
    next
      case (Inr u)
      with Dir c s rest [of w1] show ?thesis
        by (auto intro: adds_trans)
    qed
  next
    case (Other m)
    with rest show ?thesis by simp
  qed
qed

lemma copy_folder_Some_sound:
  "adds transfer_call w (snd (copy_folder tr self parent node dest (Some c) w))
   \<and> foreign (fst (copy_folder tr self parent node dest (Some c) w))"
proof (induction node arbitrary: parent dest w c)
  case (File n)
  then show ?case by (simp add: copy_folder_Some adds_call split: option.splits)
next
  case (Dir n entries)
  show ?case
  proof (cases "raises tr (trace w) (Mkdir (as_posix (joinpath dest (of_name n))))")
    case None
    have "adds transfer_call (w\<lparr>trace := trace w @ [Mkdir (as_posix (joinpath dest (of_name n)))]\<rparr>)
        (snd (copy_entries tr self (joinpath parent (of_name n)) n entries dest
           (w\<lparr>trace := trace w @ [Mkdir (as_posix (joinpath dest (of_name n)))]\<rparr>)))
      \<and> foreign (fst (copy_entries tr self (joinpath parent (of_name n)) n entries dest
           (w\<lparr>trace := trace w @ [Mkdir (as_posix (joinpath dest (of_name n)))]\<rparr>)))"
      by (rule entries_sound) (rule Dir.IH)
    with None show ?thesis
      by (auto simp: copy_folder_Some intro: adds_call_then)
  next
    case (Some e)
    then show ?thesis by (simp add: copy_folder_Some adds_call)
  qed
next
  case (Other n)
  then show ?case by (simp add: copy_folder_Some adds_call split: option.splits)
qed

lemma copy_folder_sound:
  "adds transfer_call w (snd (copy_folder tr self parent node dest sftp w))
   \<and> foreign (fst (copy_folder tr self parent node dest sftp w))"
proof (cases sftp)
  case (Some c)
  then show ?thesis by (simp add: copy_folder_Some_sound)
next
  case None
  show ?thesis
  proof (cases "ssh_client self")
    case None
    with \<open>sftp = None\<close> show ?thesis
      by (simp add: copy_folder_unconnected adds_refl)
  next
    case (Some h)
    show ?thesis
    proof (cases "raises tr (trace w) OpenSftp")
      case None
      with Some \<open>sftp = None\<close>
        copy_folder_Some_sound [of "w\<lparr>trace := trace w @ [OpenSftp]\<rparr>" tr self parent node dest SFTPClient]
      show ?thesis
        by (auto simp: copy_folder_None intro: adds_call_then)
    next
      case (Some e)
      with \<open>ssh_client self = Some h\<close> \<open>sftp = None\<close> show ?thesis
        by (simp add: copy_folder_None adds_call)
    qed
  qed
qed

subsection \<open>The calls of a transfer that succeeds\<close>

lemma entries_success_trace:
  assumes IH: "\<And>node w w' parent dest. node \<in> set entries \<Longrightarrow>
      copy_folder tr self parent node dest (Some SFTPClient) w = (Inr (), w') \<Longrightarrow>
      trace w' = trace w @ tree_calls parent dest node"
  shows "copy_entries tr self lf n entries dest w = (Inr (), w') \<Longrightarrow>
     trace w' = trace w @ concat (map (tree_calls lf (joinpath dest (of_name n))) entries)"
  using IH
proof (induction entries arbitrary: w)
  case Nil
  then show ?case by simp
next
  case (Cons node rest)
  show ?case
  proof (cases node)
    case (File m)
    define w1 where "w1 = w\<lparr>trace := trace w @ tree_calls lf (joinpath dest (of_name n)) node\<rparr>"
    from File Cons.prems(1) have r: "copy_entries tr self lf n rest dest w1 = (Inr (), w')"
      by (simp add: invoke_split w1_def split: option.splits)
    from Cons.IH [OF r] Cons.prems(2) show ?thesis by (simp add: w1_def)
  next
    case (Dir m sub)
    with Cons.prems(1) obtain w1 where
      c: "copy_folder tr self lf node (joinpath dest (of_name n)) (Some SFTPClient) w = (Inr (), w1)"
      and r: "copy_entries tr self lf n rest dest w1 = (Inr (), w')"
      by (auto split: prod.splits sum.splits)
    from Cons.prems(2) [OF _ c] have "trace w1 = trace w @ tree_calls lf (joinpath dest (of_name n)) node"
      by simp
    with Cons.IH [OF r] Cons.prems(2) show ?thesis by simp
  next
    case (Other m)
    with Cons.prems(1) have r: "copy_entries tr self lf n rest dest w = (Inr (), w')"
      by simp
    from Cons.IH [OF r] Cons.prems(2) Other show ?thesis by simp
  qed
qed

lemma copy_folder_success_trace:
  "copy_folder tr self parent node dest (Some c) w = (Inr (), w') \<Longrightarrow>
     trace w' = trace w @ tree_calls parent dest node"
proof (induction node arbitrary: parent dest w w' c)
  case (File n)
  then show ?case by (simp add: copy_folder_Some split: option.splits)
next
  case (Dir n entries)
  define w1 where "w1 = w\<lparr>trace := trace w @ [Mkdir (as_posix (joinpath dest (of_name n)))]\<rparr>"
  have w1: "trace w1 = trace w @ [Mkdir (as_posix (joinpath dest (of_name n)))]"
    by (simp add: w1_def)
  from Dir.prems
  have r: "copy_entries tr self (joinpath parent (of_name n)) n entries dest w1 = (Inr (), w')"
    by (simp add: copy_folder_Some w1_def split: option.splits)
  have "trace w' = trace w1 @
      concat (map (tree_calls (joinpath parent (of_name n)) (joinpath dest (of_name n))) entries)"
    by (rule entries_success_trace [OF _ r]) (rule Dir.IH, assumption+)
  with w1 show ?case by simp
next
  case (Other n)
  then show ?case by (simp add: copy_folder_Some split: option.splits)
qed

section \<open>Mirroring a directory\<close>

lemma node_path_Nil: "node_path base [] = as_posix base"
  by (simp add: node_path_def)

lemma node_path_Cons: "node_path base (n # rel) = node_path (joinpath base (of_name n)) rel"
  by (simp add: node_path_def)

lemma mkdir_calls_append: "mkdir_calls (a @ b) = mkdir_calls a @ mkdir_calls b"
  by (simp add: mkdir_calls_def)

lemma mkdir_calls_concat: "mkdir_calls (concat ts) = concat (map mkdir_calls ts)"
  by (induction ts) (simp_all add: mkdir_calls_append, simp add: mkdir_calls_def)

lemma mkdir_calls_simps:
  "mkdir_calls [] = []"
  "mkdir_calls (Mkdir p # t) = p # mkdir_calls t"
  "mkdir_calls (Put l r # t) = mkdir_calls t"
  "mkdir_calls (OpenSftp # t) = mkdir_calls t"
  by (simp_all add: mkdir_calls_def)

lemma put_calls_append: "put_calls (a @ b) = put_calls a @ put_calls b"
  by (simp add: put_calls_def)

lemma put_calls_concat: "put_calls (concat ts) = concat (map put_calls ts)"
  by (induction ts) (simp_all add: put_calls_append, simp add: put_calls_def)

lemma put_calls_simps:
  "put_calls [] = []"
  "put_calls (Mkdir p # t) = put_calls t"
  "put_calls (Put l r # t) = (l, r) # put_calls t"
  "put_calls (OpenSftp # t) = put_calls t"
  by (simp_all add: put_calls_def)

lemma mkdir_calls_tree:
  "mkdir_calls (tree_calls parent dest node) = map (node_path dest) (dir_nodes node)"
proof (induction node arbitrary: parent dest)
  case (Dir n entries)
  show ?case
    by (simp add: Dir.IH mkdir_calls_simps mkdir_calls_concat node_path_Nil node_path_Cons
        map_concat comp_def cong: map_cong)
qed (simp_all add: mkdir_calls_simps)

lemma put_calls_tree:
  "put_calls (tree_calls parent dest node) =
     map (\<lambda>rel. (node_path parent rel, node_path dest rel)) (file_nodes node)"
proof (induction node arbitrary: parent dest)
  case (Dir n entries)
  show ?case
    by (simp add: Dir.IH put_calls_simps put_calls_concat node_path_Nil node_path_Cons
        map_concat comp_def cong: map_cong)
qed (simp_all add: put_calls_simps node_path_Nil node_path_Cons)

lemma length_tree_calls:
  "length (tree_calls parent dest node) = length (dir_nodes node) + length (file_nodes node)"
proof (induction node arbitrary: parent dest)
  case (Dir n entries)
  show ?case
    by (simp add: Dir.IH length_concat comp_def sum_list_addf cong: map_cong)
qed simp_all

subsection \<open>A transfer that returned\<close>

lemma copy_folder_returned_calls:
  assumes "copy_folder tr self parent node dest None w = (Inr (), w1)"
  shows "\<exists>new. trace w1 = trace w @ OpenSftp # new
     \<and> mkdir_calls new = map (node_path dest) (dir_nodes node)
     \<and> put_calls new = map (\<lambda>rel. (node_path parent rel, node_path dest rel)) (file_nodes node)
     \<and> length new = length (dir_nodes node) + length (file_nodes node)"
proof (cases "ssh_client self")
  case None
  with assms show ?thesis by (simp add: copy_folder_unconnected)
next
  case (Some h)
  with assms have
    "copy_folder tr self parent node dest (Some SFTPClient) (w\<lparr>trace := trace w @ [OpenSftp]\<rparr>)
       = (Inr (), w1)"
    by (simp add: copy_folder_None split: option.splits)
  then have "trace w1 = trace (w\<lparr>trace := trace w @ [OpenSftp]\<rparr>) @ tree_calls parent dest node"
    by (rule copy_folder_success_trace)
  then have "trace w1 = trace w @ OpenSftp # tree_calls parent dest node"
    by simp
  then show ?thesis
    using mkdir_calls_tree [of parent dest node] put_calls_tree [of parent dest node]
      length_tree_calls [of parent dest node]
    by blast
qed

subsection \<open>A transfer that no call stops\<close>

lemma entries_accepted:
  assumes acc: "\<And>hist c. raises tr hist c = None"
    and IH: "\<And>m sub w parent dest. Dir m sub \<in> set entries \<Longrightarrow>
      copy_folder tr self parent (Dir m sub) dest (Some SFTPClient) w =
        (Inr (), w\<lparr>trace := trace w @ tree_calls parent dest (Dir m sub)\<rparr>)"
  shows "copy_entries tr self lf n entries dest w =
     (Inr (),
      w\<lparr>trace := trace w @ concat (map (tree_calls lf (joinpath dest (of_name n))) entries)\<rparr>)"
  using IH
proof (induction entries arbitrary: w)
  case Nil
  then show ?case by simp
next
  case (Cons node rest)
  have rest: "copy_entries tr self lf n rest dest w1 =
     (Inr (),
      w1\<lparr>trace := trace w1 @ concat (map (tree_calls lf (joinpath dest (of_name n))) rest)\<rparr>)"
    for w1
    by (rule Cons.IH) (rule Cons.prems, simp)
  show ?case
  proof (cases node)
    case (File m)
    then show ?thesis by (simp add: invoke_split acc rest)
  next
    case (Dir m sub)
    have "copy_folder tr self lf (Dir m sub) (joinpath dest (of_name n)) (Some SFTPClient) w =
        (Inr (), w\<lparr>trace := trace w @ tree_calls lf (joinpath dest (of_name n)) (Dir m sub)\<rparr>)"
      by (rule Cons.prems) (simp add: Dir)
    with Dir show ?thesis by (simp add: rest)
  next
    case (Other m)
    then show ?thesis by (simp add: rest)
  qed
qed

lemma copy_folder_Some_accepted:
  assumes acc: "\<And>hist c. raises tr hist c = None"
  shows "node = Dir n entries \<Longrightarrow>
     copy_folder tr self parent node dest (Some c) w =
       (Inr (), w\<lparr>trace := trace w @ tree_calls parent dest node\<rparr>)"
proof (induction node arbitrary: n entries parent dest w c)
  case (File m)
  then show ?case by simp
next
  case (Dir m sub)
  have "copy_entries tr self (joinpath parent (of_name m)) m sub dest w1 =
     (Inr (),
      w1\<lparr>trace := trace w1 @
         concat (map (tree_calls (joinpath parent (of_name m)) (joinpath dest (of_name m))) sub)\<rparr>)"
    for w1
    by (rule entries_accepted [OF acc]) (rule Dir.IH, assumption, rule refl)
  then show ?case
    by (simp add: copy_folder_Some acc)
next
  case (Other m)
  then show ?case by simp
qed

text \<open>
  C1: on a connected session and a transport that accepts every call, \<open>copy_folder\<close>
  called without a channel on a local directory returns, for every tree below that
  directory. It has then opened one channel and made exactly one \<^verbatim>\<open>mkdir\<close> call for
  every directory of the tree, the root included, and exactly one \<^verbatim>\<open>put\<close> call for
  every file, and no other call. The remote path of each call is the destination followed
  by the names from the root of the tree down to the node; the local path of a \<^verbatim>\<open>put\<close>
  is the same names below the parent of the root. A directory without entries is in the
  first list and adds nothing to the second.
\<close>

theorem copy_folder_mirrors_tree:
  assumes "ssh_client self = Some h"
    and "\<And>hist c. raises tr hist c = None"
  shows "\<exists>new.
       copy_folder tr self parent (Dir n entries) dest None w =
         (Inr (), w\<lparr>trace := trace w @ OpenSftp # new\<rparr>)
     \<and> mkdir_calls new = map (node_path dest) (dir_nodes (Dir n entries))
     \<and> put_calls new =
         map (\<lambda>rel. (node_path parent rel, node_path dest rel)) (file_nodes (Dir n entries))
     \<and> length new = length (dir_nodes (Dir n entries)) + length (file_nodes (Dir n entries))"
proof (intro exI conjI)
  show "copy_folder tr self parent (Dir n entries) dest None w =
      (Inr (), w\<lparr>trace := trace w @ OpenSftp # tree_calls parent dest (Dir n entries)\<rparr>)"
    using copy_folder_Some_accepted [OF assms(2) refl, of self parent n entries dest SFTPClient
        "w\<lparr>trace := trace w @ [OpenSftp]\<rparr>"]
    by (simp add: copy_folder_None [OF assms(1)] assms(2))
  show "mkdir_calls (tree_calls parent dest (Dir n entries)) =
      map (node_path dest) (dir_nodes (Dir n entries))"
    by (rule mkdir_calls_tree)
  show "put_calls (tree_calls parent dest (Dir n entries)) =
      map (\<lambda>rel. (node_path parent rel, node_path dest rel)) (file_nodes (Dir n entries))"
    by (rule put_calls_tree)
  show "length (tree_calls parent dest (Dir n entries)) =
      length (dir_nodes (Dir n entries)) + length (file_nodes (Dir n entries))"
    by (rule length_tree_calls)
qed

theorem copy_folder_mirrors_tree_witness:
  "ssh_client connected = Some ParamikoClient
   \<and> raises accepting [Connect ''host'' ''pi'' ''secret''] OpenSftp = None
   \<and> (\<exists>new.
         copy_folder accepting connected (Path Root [''local''])
           (Dir ''App'' [File ''run.py'', Dir ''pkg'' [File ''util.py''], Dir ''empty'' []])
           (Path Root [''srv'']) None world0 =
           (Inr (), \<lparr>trace = OpenSftp # new, printed = []\<rparr>)
       \<and> mkdir_calls new = [''/srv/App'', ''/srv/App/pkg'', ''/srv/App/empty'']
       \<and> put_calls new =
           [(''/local/App/run.py'', ''/srv/App/run.py''),
            (''/local/App/pkg/util.py'', ''/srv/App/pkg/util.py'')]
       \<and> length new = 5)"
proof -
  have h: "ssh_client connected = Some ParamikoClient"
    by (simp add: connected_def)
  have a: "raises accepting hist c = None" for hist c
    by (rule accepting_simps)
  show ?thesis
    using h a copy_folder_mirrors_tree [OF h a, of "Path Root [''local'']" "''App''"
        "[File ''run.py'', Dir ''pkg'' [File ''util.py''], Dir ''empty'' []]"
        "Path Root [''srv'']" world0]
    by (simp add: node_path_def joinpath_def of_name_def as_posix_def world0_def
        eval_nat_numeral)
qed

section \<open>Facts about the steps of a workflow\<close>

lemma execute_unconnected:
  "ssh_client self = None \<Longrightarrow> execute tr self command as_root pc w = (Inl AttributeError, w)"
  by (simp add: execute_def ssh_client_property_def)

lemma execute_result:
  "ssh_client self = Some h \<Longrightarrow>
   fst (execute tr self command as_root pc w) =
     (case raises tr (trace w)
             (ExecCommand (join '' '' (if as_root then ''sudo -E'' # command else command)) pc) of
        Some e \<Rightarrow> Inl (TransportError e)
      | None \<Rightarrow> Inr ())"
  by (auto simp: execute_def ssh_client_property_def Let_def invoke_def
      split: option.splits prod.splits)

lemma execute_foreign: "foreign (fst (execute tr self command as_root pc w))"
  by (cases "ssh_client self")
    (simp_all add: execute_unconnected execute_result split: option.splits)

lemma execute_adds:
  "adds (\<lambda>c. \<not> session_call c) w (snd (execute tr self command as_root pc w))"
proof (cases "ssh_client self")
  case None
  then show ?thesis by (simp add: execute_unconnected adds_refl)
next
  case (Some h)
  then show ?thesis by (simp add: adds_def execute_trace)
qed

lemma copy_file_unconnected:
  "ssh_client self = None \<Longrightarrow> copy_file tr self local_file dest w = (Inl AttributeError, w)"
  by (simp add: copy_file_def ssh_client_property_def)

lemma copy_file_connected:
  "ssh_client self = Some h \<Longrightarrow>
   copy_file tr self local_file dest w =
     (case raises tr (trace w) OpenSftp of
        Some e \<Rightarrow> (Inl (TransportError e), w\<lparr>trace := trace w @ [OpenSftp]\<rparr>)
      | None \<Rightarrow>
          ((case raises tr (trace w @ [OpenSftp])
                   (Put (as_posix local_file)
                        (as_posix (joinpath dest (of_name (name local_file))))) of
              Some e \<Rightarrow> Inl (TransportError e)
            | None \<Rightarrow> Inr ()),
           w\<lparr>trace := trace w @
              [OpenSftp,
               Put (as_posix local_file)
                   (as_posix (joinpath dest (of_name (name local_file))))]\<rparr>))"
  by (simp add: copy_file_def ssh_client_property_def invoke_split split: option.splits)

lemma copy_file_foreign: "foreign (fst (copy_file tr self local_file dest w))"
  by (cases "ssh_client self")
    (simp_all add: copy_file_unconnected copy_file_connected split: option.splits)

lemma copy_file_adds:
  "adds transfer_call w (snd (copy_file tr self local_file dest w))"
  by (cases "ssh_client self")
    (simp_all add: copy_file_unconnected copy_file_connected adds_def split: option.splits)

lemma transfer_not_session: "transfer_call c \<Longrightarrow> \<not> session_call c"
  by (cases c) simp_all

lemma adds_transfer_inner:
  "adds transfer_call w w1 \<Longrightarrow> adds (\<lambda>c. \<not> session_call c) w w1"
  by (erule adds_mono) (rule transfer_not_session)

lemma project_steps_sound:
  "adds (\<lambda>c. \<not> session_call c) w
     (snd (project_steps tr parent project file dest as_root self w))
   \<and> foreign (fst (project_steps tr parent project file dest as_root self w))"
proof -
  let ?folder = "joinpath dest (of_name (node_name project))"
  obtain r1 w1 where s1:
    "execute tr self [''rm -rf '' @ as_posix ?folder] as_root False w = (r1, w1)"
    by (cases "execute tr self [''rm -rf '' @ as_posix ?folder] as_root False w")
  obtain r2 w2 where s2: "copy_folder tr self parent project dest None w1 = (r2, w2)"
    by (cases "copy_folder tr self parent project dest None w1")
  have a1: "adds (\<lambda>c. \<not> session_call c) w w1" and f1: "foreign r1"
    using execute_adds [of w tr self "[''rm -rf '' @ as_posix ?folder]" as_root False]
      execute_foreign [of tr self "[''rm -rf '' @ as_posix ?folder]" as_root False w] s1
    by simp_all
  have a2: "adds (\<lambda>c. \<not> session_call c) w1 w2" and f2: "foreign r2"
    using copy_folder_sound [of w1 tr self parent project dest None] s2
    by (auto intro: adds_transfer_inner)
  have a3: "adds (\<lambda>c. \<not> session_call c) w2
      (snd (execute tr self [''python3'', as_posix (joinpath ?folder file)] as_root True w2))"
    by (rule execute_adds)
  have f3: "foreign
      (fst (execute tr self [''python3'', as_posix (joinpath ?folder file)] as_root True w2))"
    by (rule execute_foreign)
  show ?thesis
  proof (cases r1)
    case (Inl e)
    with s1 a1 f1 show ?thesis by (simp add: project_steps_def Let_def)
  next
    case r1: (Inr u)
    show ?thesis
    proof (cases r2)
      case (Inl e)
      with r1 s1 s2 a1 a2 f2 show ?thesis
        by (auto simp: project_steps_def Let_def intro: adds_trans)
    next
      case (Inr v)
      with r1 s1 s2 a1 a2 a3 f3 show ?thesis
        by (auto simp: project_steps_def Let_def intro: adds_trans)
    qed
  qed
qed

lemma file_steps_sound:
  "adds (\<lambda>c. \<not> session_call c) w (snd (file_steps tr local_file dest as_root self w))
   \<and> foreign (fst (file_steps tr local_file dest as_root self w))"
proof -
  let ?target = "as_posix (joinpath dest (of_name (name local_file)))"
  obtain r1 w1 where s1: "execute tr self [''rm -f '' @ ?target] False False w = (r1, w1)"
    by (cases "execute tr self [''rm -f '' @ ?target] False False w")
  obtain r2 w2 where s2: "copy_file tr self local_file dest w1 = (r2, w2)"
    by (cases "copy_file tr self local_file dest w1")
  have a1: "adds (\<lambda>c. \<not> session_call c) w w1" and f1: "foreign r1"
    using execute_adds [of w tr self "[''rm -f '' @ ?target]" False False]
      execute_foreign [of tr self "[''rm -f '' @ ?target]" False False w] s1
    by simp_all
  have a2: "adds (\<lambda>c. \<not> session_call c) w1 w2" and f2: "foreign r2"
    using copy_file_adds [of w1 tr self local_file dest]
      copy_file_foreign [of tr self local_file dest w1] s2
    by (auto intro: adds_transfer_inner)
  have a3: "adds (\<lambda>c. \<not> session_call c) w2
      (snd (execute tr self [''python3'', ?target] as_root True w2))"
    by (rule execute_adds)
  have f3: "foreign (fst (execute tr self [''python3'', ?target] as_root True w2))"
    by (rule execute_foreign)
  show ?thesis
  proof (cases r1)
    case (Inl e)
    with s1 a1 f1 show ?thesis by (simp add: file_steps_def Let_def)
  next
    case r1: (Inr u)
    show ?thesis
    proof (cases r2)
      case (Inl e)
      with r1 s1 s2 a1 a2 f2 show ?thesis
        by (auto simp: file_steps_def Let_def intro: adds_trans)
    next
      case (Inr v)
      with r1 s1 s2 a1 a2 a3 f3 show ?thesis
        by (auto simp: file_steps_def Let_def intro: adds_trans)
    qed
  qed
qed

section \<open>Facts about the session of a workflow\<close>

lemma open_ssh_client_refused:
  "raises tr (trace w) (Connect (rp_server self) (rp_user self) (rp_password self)) = Some e \<Longrightarrow>
   open_ssh_client tr self body w =
     (Inl AttributeError,
      w\<lparr>trace := trace w @ [Connect (rp_server self) (rp_user self) (rp_password self)]\<rparr>)"
  by (simp add: open_ssh_client_def connect_def close_def SSHClient_init_def
      ssh_client_property_def invoke_split)

lemma open_ssh_client_accepted:
  "raises tr (trace w) (Connect (rp_server self) (rp_user self) (rp_password self)) = None \<Longrightarrow>
   body \<lparr>server = rp_server self, username = rp_user self, password = rp_password self,
         ssh_client = Some ParamikoClient\<rparr>
     (w\<lparr>trace := trace w @ [Connect (rp_server self) (rp_user self) (rp_password self)]\<rparr>)
     = (r, w2) \<Longrightarrow>
   open_ssh_client tr self body w =
     ((case raises tr (trace w2) Close of Some e \<Rightarrow> Inl (TransportError e) | None \<Rightarrow> r),
      w2\<lparr>trace := trace w2 @ [Close]\<rparr>)"
  by (simp add: open_ssh_client_def connect_def close_def SSHClient_init_def
      ssh_client_property_def invoke_split split: option.splits)

lemma open_ssh_client_sound:
  assumes body: "\<And>s w1. adds (\<lambda>c. \<not> session_call c) w1 (snd (body s w1)) \<and> foreign (fst (body s w1))"
  shows "(if raises tr (trace w) (Connect (rp_server self) (rp_user self) (rp_password self)) = None
      then \<exists>calls. trace (snd (open_ssh_client tr self body w)) =
               trace w @ Connect (rp_server self) (rp_user self) (rp_password self) # calls @ [Close]
             \<and> list_all (\<lambda>c. \<not> session_call c) calls
      else trace (snd (open_ssh_client tr self body w)) =
               trace w @ [Connect (rp_server self) (rp_user self) (rp_password self)]
           \<and> fst (open_ssh_client tr self body w) = Inl AttributeError)
     \<and> foreign (fst (open_ssh_client tr self body w))"
proof (cases "raises tr (trace w) (Connect (rp_server self) (rp_user self) (rp_password self))")
  case (Some e)
  then show ?thesis by (simp add: open_ssh_client_refused)
next
  case None
  let ?s = "\<lparr>server = rp_server self, username = rp_user self, password = rp_password self,
         ssh_client = Some ParamikoClient\<rparr>"
  let ?w1 = "w\<lparr>trace := trace w @ [Connect (rp_server self) (rp_user self) (rp_password self)]\<rparr>"
  obtain r w2 where b: "body ?s ?w1 = (r, w2)"
    by (cases "body ?s ?w1")
  from body [of ?w1 ?s] b obtain calls where
    calls: "trace w2 = trace ?w1 @ calls" "list_all (\<lambda>c. \<not> session_call c) calls"
    and r: "foreign r"
    by (auto simp: adds_def)
  from None b calls r show ?thesis
    by (auto simp: open_ssh_client_accepted split: option.splits)
qed

lemma create_python_environment_sound:
  "(if raises tr (trace w) (Connect (rp_server self) (rp_user self) (rp_password self)) = None
      then \<exists>calls. trace (snd (create_python_environment tr self path env_name w)) =
               trace w @ Connect (rp_server self) (rp_user self) (rp_password self) # calls @ [Close]
             \<and> list_all (\<lambda>c. \<not> session_call c) calls
      else trace (snd (create_python_environment tr self path env_name w)) =
               trace w @ [Connect (rp_server self) (rp_user self) (rp_password self)]
           \<and> fst (create_python_environment tr self path env_name w) = Inl AttributeError)
     \<and> foreign (fst (create_python_environment tr self path env_name w))"
  unfolding create_python_environment_def
  by (rule open_ssh_client_sound) (simp add: execute_adds execute_foreign)

lemma execute_python_project_sound:
  "(if raises tr (trace w) (Connect (rp_server self) (rp_user self) (rp_password self)) = None
      then \<exists>calls. trace (snd (execute_python_project tr self parent project file dest as_root w)) =
               trace w @ Connect (rp_server self) (rp_user self) (rp_password self) # calls @ [Close]
             \<and> list_all (\<lambda>c. \<not> session_call c) calls
      else trace (snd (execute_python_project tr self parent project file dest as_root w)) =
               trace w @ [Connect (rp_server self) (rp_user self) (rp_password self)]
           \<and> fst (execute_python_project tr self parent project file dest as_root w)
               = Inl AttributeError)
     \<and> foreign (fst (execute_python_project tr self parent project file dest as_root w))"
  unfolding execute_python_project_def
  by (rule open_ssh_client_sound) (rule project_steps_sound)

lemma trace_print: "trace (print s e w) = trace w"
  by (simp add: print_def)

lemma execute_python_file_sound:
  "is_file node \<Longrightarrow>
   (if raises tr (trace w) (Connect (rp_server self) (rp_user self) (rp_password self)) = None
      then \<exists>calls. trace (snd (execute_python_file tr self parent node dest as_root w)) =
               trace w @ Connect (rp_server self) (rp_user self) (rp_password self) # calls @ [Close]
             \<and> list_all (\<lambda>c. \<not> session_call c) calls
      else trace (snd (execute_python_file tr self parent node dest as_root w)) =
               trace w @ [Connect (rp_server self) (rp_user self) (rp_password self)]
           \<and> fst (execute_python_file tr self parent node dest as_root w) = Inl AttributeError)
     \<and> foreign (fst (execute_python_file tr self parent node dest as_root w))"
  using open_ssh_client_sound [of "file_steps tr (joinpath parent (of_name (node_name node))) dest as_root"
      tr "print (as_posix dest) [CHR 0x0A] w" self, OF file_steps_sound]
  by (simp add: execute_python_file_def trace_print split: if_splits)

lemma execute_python_file_foreign:
  "foreign (fst (execute_python_file tr self parent node dest as_root w))"
  using execute_python_file_sound [of node tr w self parent dest as_root]
  by (cases "is_file node") (simp_all add: execute_python_file_def)

lemma main_foreign: "foreign (fst (main tr arguments w))"
  by (cases "arg_action arguments")
    (simp_all add: main_def create_python_environment_sound execute_python_project_sound
      execute_python_file_foreign)

lemma foreign_iff: "foreign r \<longleftrightarrow> (\<forall>msg. r \<noteq> Inl (RemotePythonException msg))"
  by (cases r rule: foreign.cases) simp_all

lemma connect_foreign: "foreign (fst (connect tr self w))"
  by (simp add: connect_def invoke_split split: option.splits)

lemma close_foreign: "foreign (fst (close tr self w))"
  by (simp add: close_def ssh_client_property_def invoke_split split: option.splits)

section \<open>One session for each workflow\<close>

text \<open>
  C2: every workflow started from the command line makes exactly one \<^verbatim>\<open>connect\<close> call,
  as its first call. When the connection is made, the workflow's last call is the one
  \<^verbatim>\<open>close\<close> call of the run, whatever the steps in between did, returned or raised,
  and no step in between connects or closes. When the connection is refused there is no
  session: the \<^verbatim>\<open>finally\<close> clause still calls \<open>close\<close>, which raises before it reaches the
  transport. (The file workflow asserts first that its argument is a regular file, and
  opens no session otherwise.)
\<close>

theorem workflow_opens_and_closes_one_session:
  assumes "case arg_action arguments of
             Execute_file parent node dest as_root \<Rightarrow> is_file node
           | _ \<Rightarrow> True"
  shows "if raises tr (trace w)
              (Connect (arg_server arguments) (arg_user arguments) (arg_password arguments)) = None
         then \<exists>calls. trace (snd (main tr arguments w)) =
                trace w @
                Connect (arg_server arguments) (arg_user arguments) (arg_password arguments)
                # calls @ [Close]
              \<and> list_all (\<lambda>c. \<not> session_call c) calls
         else trace (snd (main tr arguments w)) =
                trace w @
                [Connect (arg_server arguments) (arg_user arguments) (arg_password arguments)]
              \<and> fst (main tr arguments w) = Inl AttributeError"
proof (cases "arg_action arguments")
  case (Env path env_name)
  then show ?thesis
    using create_python_environment_sound
      [of tr w "\<lparr>rp_server = arg_server arguments, rp_user = arg_user arguments,
          rp_password = arg_password arguments\<rparr>" path env_name]
    by (simp add: main_def split: if_splits)
next
  case (Execute_project parent project entry dest as_root)
  then show ?thesis
    using execute_python_project_sound
      [of tr w "\<lparr>rp_server = arg_server arguments, rp_user = arg_user arguments,
          rp_password = arg_password arguments\<rparr>" parent project entry dest as_root]
    by (simp add: main_def split: if_splits)
next
  case (Execute_file parent node dest as_root)
  with assms have "is_file node" by simp
  with Execute_file show ?thesis
    using execute_python_file_sound
      [of node tr w "\<lparr>rp_server = arg_server arguments, rp_user = arg_user arguments,
          rp_password = arg_password arguments\<rparr>" parent dest as_root]
    by (simp add: main_def split: if_splits)
qed

theorem workflow_opens_and_closes_one_session_witness:
  "(case arg_action file_arguments of
      Execute_file parent node dest as_root \<Rightarrow> is_file node
    | _ \<Rightarrow> True)
   \<and> (\<exists>calls.
         trace (snd (main (refusing [Put ''/local/task.py'' ''/srv/task.py'']) file_arguments world0))
           = Connect ''host'' ''pi'' ''secret'' # calls @ [Close]
         \<and> list_all (\<lambda>c. \<not> session_call c) calls)
   \<and> fst (main (refusing [Put ''/local/task.py'' ''/srv/task.py'']) file_arguments world0)
       = Inl (TransportError ''refused'')
   \<and> (\<exists>calls.
         trace (snd (main accepting file_arguments world0))
           = Connect ''host'' ''pi'' ''secret'' # calls @ [Close]
         \<and> list_all (\<lambda>c. \<not> session_call c) calls)
   \<and> fst (main accepting file_arguments world0) = Inr ()"
proof -
  have h: "case arg_action file_arguments of
      Execute_file parent node dest as_root \<Rightarrow> is_file node
    | _ \<Rightarrow> True"
    by (simp add: file_arguments_def)
  have r: "fst (main (refusing [Put ''/local/task.py'' ''/srv/task.py'']) file_arguments world0)
       = Inl (TransportError ''refused'')"
    by (simp add: main_def file_arguments_def execute_python_file_def open_ssh_client_def
        connect_def close_def SSHClient_init_def ssh_client_property_def file_steps_def
        execute_def copy_file_def invoke_def refusing_def world0_def print_def name_def
        joinpath_def of_name_def as_posix_def Let_def)
  have a: "fst (main accepting file_arguments world0) = Inr ()"
    by (simp add: main_def file_arguments_def execute_python_file_def open_ssh_client_def
        connect_def close_def SSHClient_init_def ssh_client_property_def file_steps_def
        execute_def copy_file_def invoke_def accepting_def world0_def print_def name_def
        joinpath_def of_name_def as_posix_def Let_def)
  show ?thesis
    using h r a
      workflow_opens_and_closes_one_session
        [OF h, of "refusing [Put ''/local/task.py'' ''/srv/task.py'']" world0]
      workflow_opens_and_closes_one_session [OF h, of accepting world0]
    by (simp add: refusing_def accepting_def world0_def file_arguments_def)
qed

section \<open>The exception the script declares\<close>

text \<open>
  C10: no operation of the session, no workflow and not \<open>main\<close> ever ends with
  \<open>RemotePythonException\<close>: every failure is one of Python's own exceptions or the
  transport's. So the handler at the end of the script, which prints the message of a
  \<open>RemotePythonException\<close> and exits with status 1, is never entered.
\<close>

theorem domain_exception_never_raised:
  "fst (connect tr self w) \<noteq> Inl (RemotePythonException msg)
   \<and> fst (close tr self w) \<noteq> Inl (RemotePythonException msg)
   \<and> fst (execute tr self command as_root print_continuously w) \<noteq> Inl (RemotePythonException msg)
   \<and> fst (copy_folder tr self parent node dest sftp w) \<noteq> Inl (RemotePythonException msg)
   \<and> fst (copy_file tr self local_file dest w) \<noteq> Inl (RemotePythonException msg)
   \<and> fst (create_python_environment tr remote_python path env_name w)
       \<noteq> Inl (RemotePythonException msg)
   \<and> fst (execute_python_project tr remote_python parent node file dest as_root w)
       \<noteq> Inl (RemotePythonException msg)
   \<and> fst (execute_python_file tr remote_python parent node dest as_root w)
       \<noteq> Inl (RemotePythonException msg)
   \<and> fst (main tr arguments w) \<noteq> Inl (RemotePythonException msg)
   \<and> fst (script tr arguments w) \<noteq> Exit_1"
proof -
  have s: "fst (script tr arguments w) \<noteq> Exit_1"
    using main_foreign [of tr arguments w]
    by (cases "main tr arguments w")
      (auto simp: script_def split: sum.splits error.splits)
  show ?thesis
    using connect_foreign [of tr self w] close_foreign [of tr self w]
      execute_foreign [of tr self command as_root print_continuously w]
      copy_folder_sound [of w tr self parent node dest sftp]
      copy_file_foreign [of tr self local_file dest w]
      create_python_environment_sound [of tr w remote_python path env_name]
      execute_python_project_sound [of tr w remote_python parent node "file" dest as_root]
      execute_python_file_foreign [of tr remote_python parent node dest as_root w]
      main_foreign [of tr arguments w] s
    by (simp add: foreign_iff)
qed

section \<open>The steps of the project workflow\<close>

lemma copy_folder_connected_calls:
  assumes c: "ssh_client session = Some h"
  shows "\<exists>rest. trace (snd (copy_folder tr session parent node dest None w)) =
            trace w @ OpenSftp # rest
          \<and> list_all transfer_call rest"
proof (cases "raises tr (trace w) OpenSftp")
  case (Some e)
  then show ?thesis by (simp add: copy_folder_None [OF c])
next
  case None
  from copy_folder_Some_sound [of "w\<lparr>trace := trace w @ [OpenSftp]\<rparr>" tr session parent node
      dest SFTPClient]
  obtain rest where
    "trace (snd (copy_folder tr session parent node dest (Some SFTPClient)
        (w\<lparr>trace := trace w @ [OpenSftp]\<rparr>))) = (trace w @ [OpenSftp]) @ rest"
    "list_all transfer_call rest"
    by (auto simp: adds_def)
  with None show ?thesis by (simp add: copy_folder_None [OF c])
qed

lemma project_steps_calls:
  assumes c: "ssh_client session = Some h"
    and s1: "execute tr session
        [''rm -rf '' @ as_posix (joinpath dest (of_name (node_name project)))] as_root False w
        = (r1, w1)"
    and s2: "copy_folder tr session parent project dest None w1 = (r2, w2)"
  shows "trace w1 = trace w @
        [ExecCommand ((if as_root then ''sudo -E '' else []) @ ''rm -rf ''
            @ as_posix (joinpath dest (of_name (node_name project)))) False]"
    and "trace (snd (project_steps tr parent project entry dest as_root session w)) =
       trace w1 @
       (if r1 = Inr ()
        then drop (length (trace w1)) (trace w2) @
          (if r2 = Inr ()
           then [ExecCommand ((if as_root then ''sudo -E '' else []) @ ''python3 ''
                   @ as_posix (joinpath (joinpath dest (of_name (node_name project))) entry))
                   True]
           else [])
        else [])"
proof -
  let ?folder = "joinpath dest (of_name (node_name project))"
  show t1: "trace w1 = trace w @
      [ExecCommand ((if as_root then ''sudo -E '' else []) @ ''rm -rf '' @ as_posix ?folder) False]"
    using execute_trace [OF c, of tr "[''rm -rf '' @ as_posix ?folder]" as_root False w] s1
    by simp
  from copy_folder_connected_calls [OF c, of tr parent project dest w1] s2
  obtain rest where t2: "trace w2 = trace w1 @ OpenSftp # rest"
    by auto
  have d: "drop (length (trace w1)) (trace w2) = OpenSftp # rest"
    by (simp add: t2)
  have t3: "trace (snd (execute tr session [''python3'', as_posix (joinpath ?folder entry)]
                as_root True w2)) =
      trace w2 @ [ExecCommand ((if as_root then ''sudo -E '' else []) @ ''python3 ''
                    @ as_posix (joinpath ?folder entry)) True]"
    using execute_trace [OF c, of tr "[''python3'', as_posix (joinpath ?folder entry)]" as_root True w2]
    by simp
  show "trace (snd (project_steps tr parent project entry dest as_root session w)) =
       trace w1 @
       (if r1 = Inr ()
        then drop (length (trace w1)) (trace w2) @
          (if r2 = Inr ()
           then [ExecCommand ((if as_root then ''sudo -E '' else []) @ ''python3 ''
                   @ as_posix (joinpath ?folder entry)) True]
           else [])
        else [])"
  proof (cases r1)
    case (Inl e)
    with s1 show ?thesis by (simp add: project_steps_def Let_def)
  next
    case r1: (Inr u)
    show ?thesis
    proof (cases r2)
      case (Inl e)
      with r1 s1 s2 t2 show ?thesis by (simp add: project_steps_def Let_def)
    next
      case (Inr v)
      with r1 s1 s2 t2 t3 show ?thesis by (simp add: project_steps_def Let_def)
    qed
  qed
qed

text \<open>
  C3: once connected, \<open>execute_python_project\<close> makes its calls in this order. First the
  removal command for the remote project directory, not in streaming mode. Then, if the
  removal returned, the calls that \<open>copy_folder\<close> makes for the project on the world the
  removal left: they begin with the opening of the channel, are calls on that channel
  only, and for a transfer that returns they are the directory creations and file copies
  of the project's tree. Then, if the transfer returned too, the interpreter command for
  the entry file in streaming mode. Last, \<^verbatim>\<open>close\<close>. When the removal raises, neither a
  transfer call nor the interpreter command is made; when the transfer raises, the
  interpreter command is not made.
\<close>

theorem execute_python_project_in_sequence:
  assumes "raises tr (trace w) (Connect (rp_server self) (rp_user self) (rp_password self)) = None"
  shows "let session =
           \<lparr>server = rp_server self, username = rp_user self, password = rp_password self,
            ssh_client = Some ParamikoClient\<rparr>;
         folder = joinpath dest (of_name (node_name project));
         removed =
           execute tr session [''rm -rf '' @ as_posix folder] as_root False
             (w\<lparr>trace := trace w @ [Connect (rp_server self) (rp_user self) (rp_password self)]\<rparr>);
         transferred = copy_folder tr session parent project dest None (snd removed);
         transfer = drop (length (trace (snd removed))) (trace (snd transferred))
     in trace (snd removed) =
          trace w @
          [Connect (rp_server self) (rp_user self) (rp_password self),
           ExecCommand ((if as_root then ''sudo -E '' else []) @ ''rm -rf '' @ as_posix folder)
             False]
        \<and> trace (snd transferred) = trace (snd removed) @ transfer
        \<and> (\<exists>rest. transfer = OpenSftp # rest \<and> list_all transfer_call rest)
        \<and> (if fst transferred = Inr ()
            then mkdir_calls transfer = map (node_path dest) (dir_nodes project)
               \<and> put_calls transfer =
                   map (\<lambda>rel. (node_path parent rel, node_path dest rel)) (file_nodes project)
            else True)
        \<and> trace (snd (execute_python_project tr self parent project entry dest as_root w)) =
            trace (snd removed)
            @ (if fst removed = Inr ()
               then transfer
                 @ (if fst transferred = Inr ()
                    then [ExecCommand ((if as_root then ''sudo -E '' else []) @ ''python3 ''
                            @ as_posix (joinpath folder entry)) True]
                    else [])
               else [])
            @ [Close]"
proof -
  let ?s = "\<lparr>server = rp_server self, username = rp_user self, password = rp_password self,
            ssh_client = Some ParamikoClient\<rparr>"
  let ?w0 = "w\<lparr>trace := trace w @ [Connect (rp_server self) (rp_user self) (rp_password self)]\<rparr>"
  let ?folder = "joinpath dest (of_name (node_name project))"
  have c: "ssh_client ?s = Some ParamikoClient" by simp
  obtain r1 w1 where s1:
    "execute tr ?s [''rm -rf '' @ as_posix ?folder] as_root False ?w0 = (r1, w1)"
    by (cases "execute tr ?s [''rm -rf '' @ as_posix ?folder] as_root False ?w0")
  obtain r2 w2 where s2: "copy_folder tr ?s parent project dest None w1 = (r2, w2)"
    by (cases "copy_folder tr ?s parent project dest None w1")
  obtain r w3 where b: "project_steps tr parent project entry dest as_root ?s ?w0 = (r, w3)"
    by (cases "project_steps tr parent project entry dest as_root ?s ?w0")
  note calls = project_steps_calls(1) [OF c s1 s2]
    project_steps_calls(2) [OF c s1 s2, where entry = entry]
  from copy_folder_connected_calls [OF c, of tr parent project dest w1] s2
  obtain rest where t2: "trace w2 = trace w1 @ OpenSftp # rest" "list_all transfer_call rest"
    by auto
  have d: "drop (length (trace w1)) (trace w2) = OpenSftp # rest"
    by (simp add: t2)
  have m: "mkdir_calls (OpenSftp # rest) = map (node_path dest) (dir_nodes project)
      \<and> put_calls (OpenSftp # rest) =
          map (\<lambda>rel. (node_path parent rel, node_path dest rel)) (file_nodes project)"
    if "r2 = Inr ()"
  proof -
    from that s2 have "copy_folder tr ?s parent project dest None w1 = (Inr (), w2)"
      by simp
    from copy_folder_returned_calls [OF this] t2(1) show ?thesis
      by (auto simp: mkdir_calls_simps put_calls_simps)
  qed
  have e: "trace (snd (execute_python_project tr self parent project entry dest as_root w)) =
      trace w3 @ [Close]"
    using open_ssh_client_accepted
      [where body = "project_steps tr parent project entry dest as_root", OF assms b]
    by (simp add: execute_python_project_def)
  from calls(2) [unfolded d] b have t: "trace w3 =
       trace w1 @
       (if r1 = Inr ()
        then (OpenSftp # rest) @
          (if r2 = Inr ()
           then [ExecCommand ((if as_root then ''sudo -E '' else []) @ ''python3 ''
                   @ as_posix (joinpath ?folder entry)) True]
           else [])
        else [])"
    by simp
  show ?thesis
    unfolding Let_def s1 s2 fst_conv snd_conv d
  proof (intro conjI)
    show "trace w1 =
          trace w @
          [Connect (rp_server self) (rp_user self) (rp_password self),
           ExecCommand ((if as_root then ''sudo -E '' else []) @ ''rm -rf '' @ as_posix ?folder)
             False]"
      using calls(1) by simp
    show "trace w2 = trace w1 @ OpenSftp # rest"
      by (rule t2(1))
    show "\<exists>rest'. OpenSftp # rest = OpenSftp # rest' \<and> list_all transfer_call rest'"
      using t2(2) by simp
    show "if r2 = Inr ()
          then mkdir_calls (OpenSftp # rest) = map (node_path dest) (dir_nodes project)
             \<and> put_calls (OpenSftp # rest) =
                 map (\<lambda>rel. (node_path parent rel, node_path dest rel)) (file_nodes project)
          else True"
      using m by simp
    show "trace (snd (execute_python_project tr self parent project entry dest as_root w)) =
            trace w1
            @ (if r1 = Inr ()
               then (OpenSftp # rest)
                 @ (if r2 = Inr ()
                    then [ExecCommand ((if as_root then ''sudo -E '' else []) @ ''python3 ''
                            @ as_posix (joinpath ?folder entry)) True]
                    else [])
               else [])
            @ [Close]"
      unfolding e t by simp
  qed
qed

theorem execute_python_project_in_sequence_witness:
  "raises accepting (trace world0)
     (Connect (rp_server remote_python0) (rp_user remote_python0) (rp_password remote_python0))
     = None
   \<and> trace (snd (execute_python_project accepting remote_python0 (Path Root [''local''])
         (Dir ''App'' [File ''run.py'']) (Path Relative [''run.py'']) (Path Root [''srv''])
         False world0)) =
       [Connect ''host'' ''pi'' ''secret'', ExecCommand ''rm -rf /srv/App'' False,
        OpenSftp, Mkdir ''/srv/App'', Put ''/local/App/run.py'' ''/srv/App/run.py'',
        ExecCommand ''python3 /srv/App/run.py'' True, Close]
   \<and> trace (snd (execute_python_project (remote_host [''/srv/App'']) remote_python0
         (Path Root [''local'']) (Dir ''App'' [File ''run.py'']) (Path Relative [''run.py''])
         (Path Root [''srv'']) False world0)) =
       [Connect ''host'' ''pi'' ''secret'', ExecCommand ''rm -rf /srv/App'' False,
        OpenSftp, Mkdir ''/srv/App'', Close]
   \<and> trace (snd (execute_python_project (refusing [ExecCommand ''rm -rf /srv/App'' False])
         remote_python0 (Path Root [''local'']) (Dir ''App'' [File ''run.py''])
         (Path Relative [''run.py'']) (Path Root [''srv'']) False world0)) =
       [Connect ''host'' ''pi'' ''secret'', ExecCommand ''rm -rf /srv/App'' False, Close]"
proof -
  have a: "raises accepting (trace world0)
     (Connect (rp_server remote_python0) (rp_user remote_python0) (rp_password remote_python0))
     = None"
    by (simp add: accepting_simps)
  have b: "raises (remote_host [''/srv/App'']) (trace world0)
     (Connect (rp_server remote_python0) (rp_user remote_python0) (rp_password remote_python0))
     = None"
    by (simp add: remote_host_simps)
  have c: "raises (refusing [ExecCommand ''rm -rf /srv/App'' False]) (trace world0)
     (Connect (rp_server remote_python0) (rp_user remote_python0) (rp_password remote_python0))
     = None"
    by (simp add: refusing_simps)
  have 1: "trace (snd (execute_python_project accepting remote_python0 (Path Root [''local''])
         (Dir ''App'' [File ''run.py'']) (Path Relative [''run.py'']) (Path Root [''srv''])
         False world0)) =
       [Connect ''host'' ''pi'' ''secret'', ExecCommand ''rm -rf /srv/App'' False,
        OpenSftp, Mkdir ''/srv/App'', Put ''/local/App/run.py'' ''/srv/App/run.py'',
        ExecCommand ''python3 /srv/App/run.py'' True, Close]"
    using execute_python_project_in_sequence [OF a, of "Path Root [''srv'']"
        "Dir ''App'' [File ''run.py'']" False "Path Root [''local'']" "Path Relative [''run.py'']"]
    by (simp add: Let_def accepting_simps remote_python0_def world0_def execute_def
        copy_folder.simps ssh_client_property_def invoke_def joinpath_def of_name_def as_posix_def
        print_lines_trace print_def)
  have 2: "trace (snd (execute_python_project (remote_host [''/srv/App'']) remote_python0
         (Path Root [''local'']) (Dir ''App'' [File ''run.py'']) (Path Relative [''run.py''])
         (Path Root [''srv'']) False world0)) =
       [Connect ''host'' ''pi'' ''secret'', ExecCommand ''rm -rf /srv/App'' False,
        OpenSftp, Mkdir ''/srv/App'', Close]"
    using execute_python_project_in_sequence [OF b, of "Path Root [''srv'']"
        "Dir ''App'' [File ''run.py'']" False "Path Root [''local'']" "Path Relative [''run.py'']"]
    by (simp add: Let_def remote_host_simps remote_python0_def world0_def execute_def
        copy_folder.simps ssh_client_property_def invoke_def joinpath_def of_name_def as_posix_def
        print_lines_trace print_def)
  have 3: "trace (snd (execute_python_project (refusing [ExecCommand ''rm -rf /srv/App'' False])
         remote_python0 (Path Root [''local'']) (Dir ''App'' [File ''run.py''])
         (Path Relative [''run.py'']) (Path Root [''srv'']) False world0)) =
       [Connect ''host'' ''pi'' ''secret'', ExecCommand ''rm -rf /srv/App'' False, Close]"
    using execute_python_project_in_sequence [OF c, of "Path Root [''srv'']"
        "Dir ''App'' [File ''run.py'']" False "Path Root [''local'']" "Path Relative [''run.py'']"]
    by (simp add: Let_def refusing_simps remote_python0_def world0_def execute_def
        ssh_client_property_def invoke_def joinpath_def of_name_def as_posix_def)
  from a 1 2 3 show ?thesis by blast
qed

section \<open>The steps of the file workflow\<close>

lemma file_steps_calls:
  assumes c: "ssh_client session = Some h"
  shows "trace (snd (file_steps tr local_file dest as_root session w)) =
     trace w @
     ExecCommand (''rm -f '' @ as_posix (joinpath dest (of_name (name local_file)))) False
     # (if raises tr (trace w)
            (ExecCommand (''rm -f '' @ as_posix (joinpath dest (of_name (name local_file))))
               False) = None
        then OpenSftp
          # (if raises tr
                 (trace w @
                  [ExecCommand
                     (''rm -f '' @ as_posix (joinpath dest (of_name (name local_file)))) False])
                 OpenSftp = None
             then Put (as_posix local_file)
                      (as_posix (joinpath dest (of_name (name local_file))))
               # (if raises tr
                      (trace w @
                       [ExecCommand
                          (''rm -f '' @ as_posix (joinpath dest (of_name (name local_file))))
                          False,
                        OpenSftp])
                      (Put (as_posix local_file)
                           (as_posix (joinpath dest (of_name (name local_file))))) = None
                  then [ExecCommand ((if as_root then ''sudo -E '' else []) @ ''python3 ''
                          @ as_posix (joinpath dest (of_name (name local_file)))) True]
                  else [])
             else [])
        else [])"
proof -
  let ?target = "as_posix (joinpath dest (of_name (name local_file)))"
  let ?rm = "ExecCommand (''rm -f '' @ ?target) False"
  let ?put = "Put (as_posix local_file) ?target"
  obtain r1 w1 where s1: "execute tr session [''rm -f '' @ ?target] False False w = (r1, w1)"
    by (cases "execute tr session [''rm -f '' @ ?target] False False w")
  obtain r2 w2 where s2: "copy_file tr session local_file dest w1 = (r2, w2)"
    by (cases "copy_file tr session local_file dest w1")
  have t1: "trace w1 = trace w @ [?rm]"
    using execute_trace [OF c, of tr "[''rm -f '' @ ?target]" False False w] s1
    by simp
  have r1: "r1 = (case raises tr (trace w) ?rm of
                    Some e \<Rightarrow> Inl (TransportError e) | None \<Rightarrow> Inr ())"
    using execute_result [OF c, of tr "[''rm -f '' @ ?target]" False False w] s1
    by simp
  have t3: "trace (snd (execute tr session [''python3'', ?target] as_root True w2)) =
      trace w2 @ [ExecCommand ((if as_root then ''sudo -E '' else []) @ ''python3 '' @ ?target) True]"
    using execute_trace [OF c, of tr "[''python3'', ?target]" as_root True w2]
    by simp
  show ?thesis
  proof (cases "raises tr (trace w) ?rm")
    case (Some e)
    with s1 r1 t1 show ?thesis
      by (simp add: file_steps_def Let_def)
  next
    case rm: None
    show ?thesis
    proof (cases "raises tr (trace w @ [?rm]) OpenSftp")
      case (Some e)
      with rm s1 r1 t1 s2 show ?thesis
        by (auto simp: file_steps_def Let_def copy_file_connected [OF c])
    next
      case op: None
      show ?thesis
      proof (cases "raises tr (trace w @ [?rm, OpenSftp]) ?put")
        case (Some e)
        with rm op s1 r1 t1 s2 show ?thesis
          by (auto simp: file_steps_def Let_def copy_file_connected [OF c])
      next
        case None
        with rm op s1 r1 t1 s2 t3 show ?thesis
          by (auto simp: file_steps_def Let_def copy_file_connected [OF c])
      qed
    qed
  qed
qed

text \<open>
  C9: once connected, \<open>execute_python_file\<close> on a regular file makes exactly these calls
  after \<^verbatim>\<open>connect\<close>: the command \<^verbatim>\<open>rm -f\<close> on the remote file, with no \<^verbatim>\<open>sudo -E\<close>
  before it whatever \<open>as_root\<close> is; then, each only if the call before it was accepted, the
  opening of the channel, the copy of the file, and the interpreter command in streaming
  mode, which starts with \<^verbatim>\<open>sudo -E\<close> exactly when \<open>as_root\<close> is set; and last \<^verbatim>\<open>close\<close>.
\<close>

theorem execute_python_file_removal_not_elevated:
  assumes "is_file node"
    and "raises tr (trace w) (Connect (rp_server self) (rp_user self) (rp_password self)) = None"
  shows "let local_file = joinpath parent (of_name (node_name node));
         target = as_posix (joinpath dest (of_name (name local_file)));
         opened = Connect (rp_server self) (rp_user self) (rp_password self);
         removal = ExecCommand (''rm -f '' @ target) False;
         copy = Put (as_posix local_file) target;
         run = ExecCommand ((if as_root then ''sudo -E '' else []) @ ''python3 '' @ target) True
     in trace (snd (execute_python_file tr self parent node dest as_root w)) =
          trace w @ [opened, removal]
          @ (if raises tr (trace w @ [opened]) removal = None
             then OpenSftp
               # (if raises tr (trace w @ [opened, removal]) OpenSftp = None
                  then copy
                    # (if raises tr (trace w @ [opened, removal, OpenSftp]) copy = None
                       then [run]
                       else [])
                  else [])
             else [])
          @ [Close]"
proof -
  let ?s = "\<lparr>server = rp_server self, username = rp_user self, password = rp_password self,
            ssh_client = Some ParamikoClient\<rparr>"
  let ?w0 = "print (as_posix dest) [CHR 0x0A] w"
  let ?w1 = "?w0\<lparr>trace := trace ?w0 @ [Connect (rp_server self) (rp_user self) (rp_password self)]\<rparr>"
  let ?lf = "joinpath parent (of_name (node_name node))"
  obtain r w2 where b: "file_steps tr ?lf dest as_root ?s ?w1 = (r, w2)"
    by (cases "file_steps tr ?lf dest as_root ?s ?w1")
  have c: "ssh_client ?s = Some ParamikoClient" by simp
  have a: "raises tr (trace ?w0) (Connect (rp_server self) (rp_user self) (rp_password self)) = None"
    using assms(2) by (simp add: trace_print)
  have t: "trace (snd (execute_python_file tr self parent node dest as_root w)) = trace w2 @ [Close]"
    using assms(1) open_ssh_client_accepted [where body = "file_steps tr ?lf dest as_root", OF a b]
    by (simp add: execute_python_file_def)
  have w1: "trace ?w1 = trace w @ [Connect (rp_server self) (rp_user self) (rp_password self)]"
    by (simp add: trace_print)
  from file_steps_calls [OF c, of tr ?lf dest as_root ?w1] b
  have "trace w2 = trace ?w1 @
     ExecCommand (''rm -f '' @ as_posix (joinpath dest (of_name (name ?lf)))) False
     # (if raises tr (trace ?w1)
            (ExecCommand (''rm -f '' @ as_posix (joinpath dest (of_name (name ?lf))))
               False) = None
        then OpenSftp
          # (if raises tr
                 (trace ?w1 @
                  [ExecCommand
                     (''rm -f '' @ as_posix (joinpath dest (of_name (name ?lf)))) False])
                 OpenSftp = None
             then Put (as_posix ?lf)
                      (as_posix (joinpath dest (of_name (name ?lf))))
               # (if raises tr
                      (trace ?w1 @
                       [ExecCommand
                          (''rm -f '' @ as_posix (joinpath dest (of_name (name ?lf))))
                          False,
                        OpenSftp])
                      (Put (as_posix ?lf)
                           (as_posix (joinpath dest (of_name (name ?lf))))) = None
                  then [ExecCommand ((if as_root then ''sudo -E '' else []) @ ''python3 ''
                          @ as_posix (joinpath dest (of_name (name ?lf)))) True]
                  else [])
             else [])
        else [])"
    by simp
  then show ?thesis
    unfolding Let_def t w1 by simp
qed

theorem execute_python_file_removal_not_elevated_witness:
  "is_file (File ''task.py'')
   \<and> raises accepting (trace world0)
       (Connect (rp_server remote_python0) (rp_user remote_python0) (rp_password remote_python0))
       = None
   \<and> trace (snd (execute_python_file accepting remote_python0 (Path Root [''local''])
         (File ''task.py'') (Path Root [''srv'']) True world0)) =
       [Connect ''host'' ''pi'' ''secret'', ExecCommand ''rm -f /srv/task.py'' False, OpenSftp,
        Put ''/local/task.py'' ''/srv/task.py'',
        ExecCommand ''sudo -E python3 /srv/task.py'' True, Close]
   \<and> trace (snd (execute_python_file accepting remote_python0 (Path Root [''local''])
         (File ''task.py'') (Path Root [''srv'']) False world0)) =
       [Connect ''host'' ''pi'' ''secret'', ExecCommand ''rm -f /srv/task.py'' False, OpenSftp,
        Put ''/local/task.py'' ''/srv/task.py'',
        ExecCommand ''python3 /srv/task.py'' True, Close]"
proof -
  have a: "is_file (File ''task.py'')" by simp
  have b: "raises accepting (trace world0)
       (Connect (rp_server remote_python0) (rp_user remote_python0) (rp_password remote_python0))
       = None"
    by (simp add: accepting_simps)
  show ?thesis
    using a b
      execute_python_file_removal_not_elevated
        [OF a b, of "Path Root [''local'']" "Path Root [''srv'']" True]
      execute_python_file_removal_not_elevated
        [OF a b, of "Path Root [''local'']" "Path Root [''srv'']" False]
    by (simp add: Let_def accepting_simps remote_python0_def world0_def name_def joinpath_def
        of_name_def as_posix_def)
qed

section \<open>Operations outside a session\<close>

text \<open>
  A session is connected and closed on a transport that accepts every call; a command
  executed on it afterwards is passed to the transport and returns normally.
\<close>

theorem operation_after_close_counterexample:
  "connect accepting (SSHClient_init ''host'' ''pi'' ''secret'') world0 =
     (Inr connected, \<lparr>trace = [Connect ''host'' ''pi'' ''secret''], printed = []\<rparr>)
   \<and> close accepting connected \<lparr>trace = [Connect ''host'' ''pi'' ''secret''], printed = []\<rparr> =
     (Inr (), \<lparr>trace = [Connect ''host'' ''pi'' ''secret'', Close], printed = []\<rparr>)
   \<and> execute accepting connected [''ls''] False False
       \<lparr>trace = [Connect ''host'' ''pi'' ''secret'', Close], printed = []\<rparr> =
     (Inr (),
      \<lparr>trace = [Connect ''host'' ''pi'' ''secret'', Close, ExecCommand ''ls'' False],
       printed = [[CHR 0x0A]]\<rparr>)"
  by (simp add: connect_def close_def execute_def SSHClient_init_def connected_def
      ssh_client_property_def invoke_def accepting_def world0_def print_def)

lemma entries_any_session:
  assumes IH: "\<And>node w parent dest. node \<in> set entries \<Longrightarrow>
      copy_folder tr s1 parent node dest (Some SFTPClient) w =
      copy_folder tr s2 parent node dest (Some SFTPClient) w"
  shows "copy_entries tr s1 lf n entries dest w = copy_entries tr s2 lf n entries dest w"
  using IH
proof (induction entries arbitrary: w)
  case Nil
  then show ?case by simp
next
  case (Cons node rest)
  have rest: "copy_entries tr s1 lf n rest dest w1 = copy_entries tr s2 lf n rest dest w1" for w1
    by (rule Cons.IH) (rule Cons.prems, simp)
  show ?case
  proof (cases node)
    case (File m)
    then show ?thesis by (simp add: invoke_split rest split: option.splits)
  next
    case (Dir m sub)
    have "copy_folder tr s1 lf (Dir m sub) (joinpath dest (of_name n)) (Some SFTPClient) w =
        copy_folder tr s2 lf (Dir m sub) (joinpath dest (of_name n)) (Some SFTPClient) w"
      by (rule Cons.prems) (simp add: Dir)
    with Dir show ?thesis by (simp add: rest split: prod.splits sum.splits)
  next
    case (Other m)
    then show ?thesis by (simp add: rest)
  qed
qed

lemma copy_folder_any_session:
  "copy_folder tr s1 parent node dest (Some c) w = copy_folder tr s2 parent node dest (Some c) w"
proof (induction node arbitrary: parent dest w c)
  case (File n)
  show ?case by (simp add: copy_folder_Some split: option.splits)
next
  case (Dir n entries)
  have "copy_entries tr s1 lf n entries dest w1 = copy_entries tr s2 lf n entries dest w1"
    for lf w1
    by (rule entries_any_session) (rule Dir.IH)
  then show ?case by (simp add: copy_folder_Some split: option.splits)
next
  case (Other n)
  show ?case by (simp add: copy_folder_Some split: option.splits)
qed

text \<open>
  C5, amended: on a session object on which \<open>connect\<close> has not succeeded, \<open>execute\<close>,
  \<open>copy_file\<close> and \<open>copy_folder\<close> called without a channel raise \<open>AttributeError\<close> and make
  no call on the transport; \<open>copy_folder\<close> called with a channel never looks at the handle
  and does on that object what it does on a connected one. \<open>close\<close> makes its call on the
  transport and does not remove the handle. After it, \<open>execute\<close> and \<open>copy_file\<close> pass their
  calls to the transport and raise exactly when the transport does; \<open>copy_folder\<close> called
  without a channel asks the transport for a channel, raises if that is refused, and
  otherwise goes on as \<open>copy_folder\<close> called with a channel.
\<close>

theorem operation_outside_session:
  "execute tr (SSHClient_init srv usr pw) command as_root print_continuously w
     = (Inl AttributeError, w)
   \<and> copy_folder tr (SSHClient_init srv usr pw) parent node dest None w = (Inl AttributeError, w)
   \<and> copy_file tr (SSHClient_init srv usr pw) local_file dest w = (Inl AttributeError, w)
   \<and> copy_folder tr (SSHClient_init srv usr pw) parent node dest (Some c) w
       = copy_folder tr (self\<lparr>ssh_client := Some h\<rparr>) parent node dest (Some c) w
   \<and> snd (close tr (self\<lparr>ssh_client := Some h\<rparr>) w) = w\<lparr>trace := trace w @ [Close]\<rparr>
   \<and> fst (execute tr (self\<lparr>ssh_client := Some h\<rparr>) command as_root print_continuously
            (w\<lparr>trace := trace w @ [Close]\<rparr>)) =
       (case raises tr (trace w @ [Close])
               (ExecCommand (join '' '' (if as_root then ''sudo -E'' # command else command))
                  print_continuously) of
          Some e \<Rightarrow> Inl (TransportError e)
        | None \<Rightarrow> Inr ())
   \<and> copy_folder tr (self\<lparr>ssh_client := Some h\<rparr>) parent node dest None
         (w\<lparr>trace := trace w @ [Close]\<rparr>) =
       (case raises tr (trace w @ [Close]) OpenSftp of
          Some e \<Rightarrow> (Inl (TransportError e), w\<lparr>trace := trace w @ [Close, OpenSftp]\<rparr>)
        | None \<Rightarrow>
            copy_folder tr (self\<lparr>ssh_client := Some h\<rparr>) parent node dest (Some SFTPClient)
              (w\<lparr>trace := trace w @ [Close, OpenSftp]\<rparr>))
   \<and> fst (copy_file tr (self\<lparr>ssh_client := Some h\<rparr>) local_file dest
            (w\<lparr>trace := trace w @ [Close]\<rparr>)) =
       (case raises tr (trace w @ [Close]) OpenSftp of
          Some e \<Rightarrow> Inl (TransportError e)
        | None \<Rightarrow>
            (case raises tr (trace w @ [Close, OpenSftp])
                    (Put (as_posix local_file)
                         (as_posix (joinpath dest (of_name (name local_file))))) of
               Some e \<Rightarrow> Inl (TransportError e)
             | None \<Rightarrow> Inr ()))"
proof -
  have n: "ssh_client (SSHClient_init srv usr pw) = None"
    by (simp add: SSHClient_init_def)
  have s: "ssh_client (self\<lparr>ssh_client := Some h\<rparr>) = Some h"
    by simp
  have a: "copy_folder tr (SSHClient_init srv usr pw) parent node dest (Some c) w
       = copy_folder tr (self\<lparr>ssh_client := Some h\<rparr>) parent node dest (Some c) w"
    by (rule copy_folder_any_session)
  show ?thesis
    by (simp add: a execute_unconnected [OF n] copy_folder_unconnected [OF n]
        copy_file_unconnected [OF n] execute_result [OF s] copy_folder_None [OF s]
        copy_file_connected [OF s] close_def ssh_client_property_def invoke_split
        split: option.splits)
qed

section \<open>A destination that exists\<close>

text \<open>
  C4: when the transport refuses the creation of the remote directory for the root (as a
  remote host does for a path that exists), \<open>copy_folder\<close> ends with the transport's
  error right after that call: the calls made are the opening of the channel and the
  refused \<^verbatim>\<open>mkdir\<close>, and no \<^verbatim>\<open>put\<close> is among them.
\<close>

theorem copy_folder_collision:
  assumes "ssh_client self = Some h"
    and "raises tr (trace w) OpenSftp = None"
    and "raises tr (trace w @ [OpenSftp])
           (Mkdir (as_posix (joinpath dest (of_name (node_name node))))) = Some e"
  shows "copy_folder tr self parent node dest None w =
     (Inl (TransportError e),
      w\<lparr>trace := trace w @
         [OpenSftp, Mkdir (as_posix (joinpath dest (of_name (node_name node))))]\<rparr>)
   \<and> put_calls (trace (snd (copy_folder tr self parent node dest None w)))
       = put_calls (trace w)"
  using assms
  by (simp add: copy_folder_None copy_folder_Some put_calls_append put_calls_simps)

theorem copy_folder_collision_witness:
  "copy_folder (remote_host [''/srv/App'']) connected (Path Root [''local''])
     (Dir ''App'' [File ''run.py'']) (Path Root [''srv'']) None world0 =
     (Inl (TransportError ''exists''),
      \<lparr>trace = [OpenSftp, Mkdir ''/srv/App''], printed = []\<rparr>)
   \<and> put_calls (trace (snd (copy_folder (remote_host [''/srv/App'']) connected
         (Path Root [''local'']) (Dir ''App'' [File ''run.py'']) (Path Root [''srv'']) None
         world0))) = []"
proof -
  have a: "ssh_client connected = Some ParamikoClient"
    by (simp add: connected_def)
  have b: "raises (remote_host [''/srv/App'']) (trace world0) OpenSftp = None"
    by (simp add: remote_host_def)
  have c: "raises (remote_host [''/srv/App'']) (trace world0 @ [OpenSftp])
      (Mkdir (as_posix (joinpath (Path Root [''srv''])
         (of_name (node_name (Dir ''App'' [File ''run.py'']))))))
      = Some ''exists''"
    by (simp add: remote_host_def joinpath_def of_name_def as_posix_def)
  show ?thesis
    using copy_folder_collision [OF a b c, of "Path Root [''local'']"]
    by (simp add: world0_def joinpath_def of_name_def as_posix_def put_calls_simps)
qed

section \<open>The command string\<close>

text \<open>
  C7: on a connected session, \<open>execute\<close> passes one command string to the transport.
  With \<open>as_root\<close> it is the token \<^verbatim>\<open>sudo -E\<close> followed by every token of the command,
  in order and unchanged, each after exactly one space; without \<open>as_root\<close> it is the
  tokens in order and unchanged with exactly one space between two of them.
\<close>

theorem execute_invocation_string:
  assumes "ssh_client self = Some h"
  shows "trace (snd (execute tr self command as_root pc w)) =
     trace w @
     [ExecCommand
        (if as_root then ''sudo -E'' @ concat (map ((@) '' '') command)
         else (case command of [] \<Rightarrow> [] | t # ts \<Rightarrow> t @ concat (map ((@) '' '') ts)))
        pc]"
  using execute_trace [OF assms, of tr command as_root pc w]
  by (simp add: join_space split: list.splits)

theorem execute_invocation_string_witness:
  "ssh_client connected = Some ParamikoClient
   \<and> trace (snd (execute accepting connected [''python3'', ''my file.py''] True True world0))
       = [ExecCommand ''sudo -E python3 my file.py'' True]
   \<and> trace (snd (execute accepting connected [''python3'', ''my file.py''] False True world0))
       = [ExecCommand ''python3 my file.py'' True]"
proof -
  have h: "ssh_client connected = Some ParamikoClient"
    by (simp add: connected_def)
  show ?thesis
    using h execute_invocation_string [OF h, of accepting "[''python3'', ''my file.py'']" True True world0]
      execute_invocation_string [OF h, of accepting "[''python3'', ''my file.py'']" False True world0]
    by (simp add: world0_def)
qed

section \<open>Output of a remote command\<close>

text \<open>
  C8: when \<open>print_continuously\<close> is false and the transport runs the command,
  \<open>execute\<close> returns without raising after it has printed every line of the standard
  output up to its end and then the whole standard error, joined, in one \<^verbatim>\<open>print\<close>;
  an empty standard error is printed all the same, as an empty line.
\<close>

theorem execute_prints_stderr:
  assumes "ssh_client self = Some h"
    and "raises tr (trace w)
           (ExecCommand (join '' '' (if as_root then ''sudo -E'' # command else command)) False)
         = None"
    and "streams tr (trace w)
           (join '' '' (if as_root then ''sudo -E'' # command else command)) False = (out, err)"
  shows "execute tr self command as_root False w =
     (Inr (),
      w\<lparr>trace := trace w @
           [ExecCommand (join '' '' (if as_root then ''sudo -E'' # command else command)) False],
        printed := printed w @ takeWhile (\<lambda>l. l \<noteq> []) out @ [concat err @ [CHR 0x0A]]\<rparr>)"
  using assms
  by (auto simp: execute_def ssh_client_property_def Let_def invoke_def print_def
      print_lines_trace print_lines_printed)

theorem execute_prints_stderr_witness:
  "execute (replying [''created''] []) connected [''python3'', ''-m'', ''venv'', ''/srv/env'']
     False False world0 =
     (Inr (),
      \<lparr>trace = [ExecCommand ''python3 -m venv /srv/env'' False],
       printed = [''created'', [CHR 0x0A]]\<rparr>)"
proof -
  have h: "ssh_client connected = Some ParamikoClient"
    by (simp add: connected_def)
  have r: "raises (replying [''created''] []) (trace world0)
      (ExecCommand (join '' '' (if False then ''sudo -E'' # [''python3'', ''-m'', ''venv'', ''/srv/env'']
         else [''python3'', ''-m'', ''venv'', ''/srv/env''])) False) = None"
    by (simp add: replying_def)
  have s: "streams (replying [''created''] []) (trace world0)
      (join '' '' (if False then ''sudo -E'' # [''python3'', ''-m'', ''venv'', ''/srv/env'']
         else [''python3'', ''-m'', ''venv'', ''/srv/env''])) False = ([''created''], [])"
    by (simp add: replying_def)
  show ?thesis
    using execute_prints_stderr [OF h r s] by (simp add: world0_def)
qed

section \<open>Closing a session that was never opened\<close>

text \<open>
  C6: \<open>close\<close> on a session object on which \<open>connect\<close> has not succeeded raises
  \<open>AttributeError\<close>, and makes no call on the transport. The \<^verbatim>\<open>finally\<close> clause of
  \<open>open_ssh_client\<close> calls \<open>close\<close> in exactly that state when the transport refuses the
  connection, and the workflow then ends with \<open>AttributeError\<close>.
\<close>

theorem close_never_opened_raises:
  "close tr (SSHClient_init srv usr pw) w = (Inl AttributeError, w)
   \<and> fst (open_ssh_client (refusing [Connect ''host'' ''pi'' ''secret''])
            \<lparr>rp_server = ''host'', rp_user = ''pi'', rp_password = ''secret''\<rparr> body world0)
       = Inl AttributeError"
  by (simp add: close_def SSHClient_init_def ssh_client_property_def open_ssh_client_def
      connect_def invoke_def refusing_def world0_def)

end
